theory Spec2Isabelle
  imports Complex_Main
begin

section \<open>The job model (app/models/job.py)\<close>

text \<open>
  \<^verbatim>\<open>JobStatus\<close> is the enumeration of the source. A job identifier is a UUID; it is kept
  in its canonical text form, so that \<^verbatim>\<open>UUID(job_id)\<close> and \<^verbatim>\<open>str(job.id)\<close> are the identity
  (the only caller, \<^verbatim>\<open>create_generation_job\<close>, passes \<^verbatim>\<open>str(job.id)\<close>). A \<^verbatim>\<open>datetime\<close> is a
  number of seconds, \<^verbatim>\<open>bytes\<close> a list of 8-bit characters.
\<close>

datatype JobStatus = PENDING | PROCESSING | COMPLETED | FAILED | CANCELLED

type_synonym uuid = string
type_synonym datetime = int
type_synonym bytes = "char list"

record Job =
  job_id :: uuid
  prompt :: string
  model_name :: string
  parameters :: "string option"
  status :: JobStatus
  created_at :: datetime
  updated_at :: "datetime option"
  started_at :: "datetime option"
  completed_at :: "datetime option"
  retry_count :: int
  error_message :: "string option"
  result_url :: "string option"
  file_path :: "string option"
  file_size :: "int option"
  external_job_id :: "string option"

text \<open>
  \<^verbatim>\<open>Job.model_validate(job_request.model_dump())\<close> in \<^verbatim>\<open>create_generation_job\<close>: the four
  fields of \<^verbatim>\<open>JobCreate\<close> come from the request, every other field takes the default
  declared in the model (\<^verbatim>\<open>id\<close> from \<^verbatim>\<open>uuid4\<close>, \<^verbatim>\<open>created_at\<close> from the clock).
\<close>

definition create_job :: "uuid \<Rightarrow> datetime \<Rightarrow> string \<Rightarrow> string \<Rightarrow> string option \<Rightarrow> JobStatus \<Rightarrow> Job" where
  "create_job uuid4 now p m ps st =
     \<lparr> job_id = uuid4, prompt = p, model_name = m, parameters = ps, status = st,
       created_at = now, updated_at = None, started_at = None, completed_at = None,
       retry_count = 0, error_message = None, result_url = None, file_path = None,
       file_size = None, external_job_id = None \<rparr>"

text \<open>Python truthiness of an \<^verbatim>\<open>Optional[str]\<close>: \<^verbatim>\<open>None\<close> and the empty string are false.\<close>

definition truthy :: "string option \<Rightarrow> bool" where
  "truthy v = (case v of None \<Rightarrow> False | Some s \<Rightarrow> s \<noteq> [])"

text \<open>The two observations of the specification's invariant on terminal jobs.\<close>

definition error_nonempty :: "Job \<Rightarrow> bool" where
  "error_nonempty j = truthy (error_message j)"

definition result_present :: "Job \<Rightarrow> bool" where
  "result_present j = (\<not> (result_url j = None \<and> file_path j = None \<and> file_size j = None))"

section \<open>Values, exceptions and the outside world\<close>

text \<open>JSON values as \<^verbatim>\<open>json.loads\<close> produces them; an object keeps its keys in order.\<close>

datatype jval =
    JNull | JBool bool | JInt int | JFloat real | JStr string
  | JArr "jval list" | JObj "(string \<times> jval) list"

text \<open>
  The exceptions the code raises or catches, each with the text \<^verbatim>\<open>str(e)\<close> gives.
  \<^verbatim>\<open>JSONDecodeError\<close> is a subclass of \<^verbatim>\<open>ValueError\<close> in Python; no handler of the code names
  \<^verbatim>\<open>ValueError\<close>, so the two are kept apart here.
\<close>

datatype exn =
    ReplicateAPIError string
  | StorageError string
  | JSONDecodeError string
  | ValueError string
  | TypeError string
  | RecursionError string
  | OtherException string

fun str_exn :: "exn \<Rightarrow> string" where
  "str_exn (ReplicateAPIError m) = m"
| "str_exn (StorageError m) = m"
| "str_exn (JSONDecodeError m) = m"
| "str_exn (ValueError m) = m"
| "str_exn (TypeError m) = m"
| "str_exn (RecursionError m) = m"
| "str_exn (OtherException m) = m"

fun is_ReplicateAPIError :: "exn \<Rightarrow> bool" where
  "is_ReplicateAPIError (ReplicateAPIError m) = True"
| "is_ReplicateAPIError e = False"

fun is_JSONDecodeError :: "exn \<Rightarrow> bool" where
  "is_JSONDecodeError (JSONDecodeError m) = True"
| "is_JSONDecodeError e = False"

fun is_StorageError :: "exn \<Rightarrow> bool" where
  "is_StorageError (StorageError m) = True"
| "is_StorageError e = False"

definition is_Exception :: "exn \<Rightarrow> bool" where
  "is_Exception e = True"

text \<open>
  A key of a response dictionary is missing, \<^verbatim>\<open>null\<close>, or has a value. The prediction
  dictionary that \<^verbatim>\<open>get_prediction\<close> returns is read at \<^verbatim>\<open>status\<close>, \<^verbatim>\<open>output\<close> and \<^verbatim>\<open>error\<close>.
\<close>

datatype 'a field = Missing | Null | Value 'a

record prediction =
  p_status :: string
  p_output :: "string list field"
  p_error :: "string field"

text \<open>
  What is outside the repository is a parameter of the model:
  \<^item> the clock. One run of the task reads it at one value, \<open>utcnow\<close>: the model does not
    follow time passing within a run, and no statement below compares two timestamps of
    one run;
  \<^item> \<^verbatim>\<open>json.loads\<close>, which returns a value or raises: \<^verbatim>\<open>JSONDecodeError\<close> on most texts
    that are no JSON, but also \<^verbatim>\<open>RecursionError\<close> or a plain \<^verbatim>\<open>ValueError\<close> on some;
  \<^item> the Replicate client behind \<^verbatim>\<open>replicate_service\<close>: \<^verbatim>\<open>create_prediction\<close> answers with
    the \<^verbatim>\<open>id\<close> of the response or raises; \<^verbatim>\<open>get_prediction\<close> is indexed by the number of
    the poll within one task run;
  \<^item> the outcome of the HTTP download inside \<^verbatim>\<open>download_result\<close>, and \<^verbatim>\<open>datetime.isoformat\<close>.
\<close>

record world =
  utcnow :: datetime
  json_loads :: "string \<Rightarrow> exn + jval"
  create_prediction :: "string \<Rightarrow> (string \<times> jval) list \<Rightarrow> exn + string"
  get_prediction :: "nat \<Rightarrow> string \<Rightarrow> exn + prediction"
  http_download :: "string \<Rightarrow> exn + bytes"
  isoformat :: "datetime \<Rightarrow> string"

text \<open>The calls that leave the process, and the sleeps, in the order they happen.\<close>

datatype call =
    CreatePrediction string "(string \<times> jval) list"
  | GetPrediction string
  | DownloadResult string
  | Sleep nat

text \<open>
  \<^verbatim>\<open>LocalFileStorage\<close>: its configuration, the media files and the metadata files by
  path, and whether file operations currently fail (the text of the \<^verbatim>\<open>OSError\<close>).
\<close>

record storage =
  base_path :: string
  metadata_path :: string
  base_url :: string
  files :: "string \<rightharpoonup> bytes"
  metadata_files :: "string \<rightharpoonup> (string \<times> jval) list"
  io_error :: "string option"

text \<open>The state a task run works on: the job table, the storage, the calls made so far.\<close>

record state =
  db :: "Job list"
  fs :: storage
  trace :: "call list"

section \<open>Computations that change the state and may raise\<close>

type_synonym 'a task = "state \<Rightarrow> (exn + 'a) \<times> state"

definition return :: "'a \<Rightarrow> 'a task" where
  "return x s = (Inr x, s)"

definition raise :: "exn \<Rightarrow> 'a task" where
  "raise e s = (Inl e, s)"

definition bind :: "'a task \<Rightarrow> ('a \<Rightarrow> 'b task) \<Rightarrow> 'b task" where
  "bind m f s = (case m s of (Inl e, s') \<Rightarrow> (Inl e, s') | (Inr x, s') \<Rightarrow> f x s')"

text \<open>\<^verbatim>\<open>try: m except C as e: h\<close>, where \<open>catches\<close> is the \<^verbatim>\<open>isinstance\<close> test of \<^verbatim>\<open>C\<close>.\<close>

definition try_except :: "'a task \<Rightarrow> (exn \<Rightarrow> bool) \<Rightarrow> (exn \<Rightarrow> 'a task) \<Rightarrow> 'a task" where
  "try_except m catches h s =
     (case m s of
        (Inl e, s') \<Rightarrow> if catches e then h e s' else (Inl e, s')
      | (Inr x, s') \<Rightarrow> (Inr x, s'))"

definition record_call :: "call \<Rightarrow> unit task" where
  "record_call c s = (Inr (), s\<lparr>trace := trace s @ [c]\<rparr>)"

definition sleep :: "nat \<Rightarrow> unit task" where
  "sleep n = record_call (Sleep n)"

text \<open>
  An \<^verbatim>\<open>async def\<close> function called without \<^verbatim>\<open>await\<close> does not run: the call returns a
  coroutine object holding the body. \<^verbatim>\<open>loop.run_until_complete\<close> runs the body. A
  coroutine object is true in a condition, and it is not iterable, so a tuple
  assignment from it raises \<^verbatim>\<open>TypeError\<close>.
\<close>

datatype 'a awaitable = Coroutine "'a task"

fun run_until_complete :: "'a awaitable \<Rightarrow> 'a task" where
  "run_until_complete (Coroutine body) = body"

fun bool_of_object :: "'a awaitable \<Rightarrow> bool" where
  "bool_of_object (Coroutine body) = True"

fun unpack_pair :: "('a \<times> 'b) awaitable \<Rightarrow> ('a \<times> 'b) task" where
  "unpack_pair (Coroutine body) = raise (TypeError ''cannot unpack non-iterable coroutine object'')"

section \<open>The storage service (app/services/storage.py)\<close>

definition generate_file_path :: "storage \<Rightarrow> uuid \<Rightarrow> string \<Rightarrow> string" where
  "generate_file_path st uid extension = base_path st @ ''/'' @ uid @ ''.'' @ extension"

definition generate_metadata_path :: "storage \<Rightarrow> uuid \<Rightarrow> string" where
  "generate_metadata_path st uid = metadata_path st @ ''/'' @ uid @ ''.json''"

definition generate_file_url :: "storage \<Rightarrow> uuid \<Rightarrow> string \<Rightarrow> string" where
  "generate_file_url st uid extension = base_url st @ ''/'' @ uid @ ''.'' @ extension"

definition save_file :: "uuid \<Rightarrow> bytes \<Rightarrow> string \<Rightarrow> (string \<times> string) awaitable" where
  "save_file uid file_data extension = Coroutine (\<lambda>s.
     (case io_error (fs s) of
        Some e \<Rightarrow> (Inl (StorageError (''Failed to save file for job '' @ uid @ '': '' @ e)), s)
      | None \<Rightarrow>
          (Inr (generate_file_path (fs s) uid extension, generate_file_url (fs s) uid extension),
           s\<lparr>fs := (fs s)\<lparr>files := (files (fs s))
                (generate_file_path (fs s) uid extension \<mapsto> file_data)\<rparr>\<rparr>)))"

definition save_metadata :: "uuid \<Rightarrow> (string \<times> jval) list \<Rightarrow> string awaitable" where
  "save_metadata uid metadata = Coroutine (\<lambda>s.
     (case io_error (fs s) of
        Some e \<Rightarrow> (Inl (StorageError (''Failed to save metadata for job '' @ uid @ '': '' @ e)), s)
      | None \<Rightarrow>
          (Inr (generate_metadata_path (fs s) uid),
           s\<lparr>fs := (fs s)\<lparr>metadata_files := (metadata_files (fs s))
                (generate_metadata_path (fs s) uid \<mapsto> metadata)\<rparr>\<rparr>)))"

definition delete_file :: "uuid \<Rightarrow> string \<Rightarrow> bool awaitable" where
  "delete_file uid extension = Coroutine (\<lambda>s.
     (case io_error (fs s) of
        Some e \<Rightarrow> (Inl (StorageError (''Failed to delete file for job '' @ uid @ '': '' @ e)), s)
      | None \<Rightarrow>
          (if files (fs s) (generate_file_path (fs s) uid extension) \<noteq> None
           then (Inr True,
                 s\<lparr>fs := (fs s)\<lparr>files := (files (fs s))
                      (generate_file_path (fs s) uid extension := None)\<rparr>\<rparr>)
           else (Inr False, s))))"

section \<open>The Replicate service (app/services/replicate_client.py)\<close>

definition kwargs_get :: "(string \<times> jval) list \<Rightarrow> string \<Rightarrow> jval \<Rightarrow> jval" where
  "kwargs_get kwargs k dflt = (case map_of kwargs k of None \<Rightarrow> dflt | Some v \<Rightarrow> v)"

definition input_data_of :: "string \<Rightarrow> (string \<times> jval) list \<Rightarrow> (string \<times> jval) list" where
  "input_data_of p kwargs =
     filter (\<lambda>(k, v). v \<noteq> JNull)
       [(''prompt'', JStr p),
        (''width'', kwargs_get kwargs ''width'' (JInt 1024)),
        (''height'', kwargs_get kwargs ''height'' (JInt 1024)),
        (''num_outputs'', JInt 1),
        (''num_inference_steps'', kwargs_get kwargs ''num_inference_steps'' (JInt 4)),
        (''guidance_scale'', kwargs_get kwargs ''guidance_scale'' (JFloat (7 / 2))),
        (''seed'', kwargs_get kwargs ''seed'' JNull)]"

definition generate_image :: "world \<Rightarrow> string \<Rightarrow> string \<Rightarrow> (string \<times> jval) list \<Rightarrow> string task" where
  "generate_image w p model kwargs =
     bind (record_call (CreatePrediction model (input_data_of p kwargs))) (\<lambda>_.
       (case create_prediction w model (input_data_of p kwargs) of
          Inl e \<Rightarrow> raise e
        | Inr response_id \<Rightarrow> return response_id))"

definition check_job_status :: "world \<Rightarrow> nat \<Rightarrow> string \<Rightarrow> prediction task" where
  "check_job_status w attempt handle =
     bind (record_call (GetPrediction handle)) (\<lambda>_.
       (case get_prediction w attempt handle of
          Inl e \<Rightarrow> raise e
        | Inr result \<Rightarrow> return result))"

definition download_result :: "world \<Rightarrow> string \<Rightarrow> string \<Rightarrow> bytes task" where
  "download_result w image_url p =
     bind (record_call (DownloadResult image_url)) (\<lambda>_.
       (case http_download w image_url of
          Inl e \<Rightarrow> raise e
        | Inr content \<Rightarrow> return content))"

section \<open>The job table (app/tasks/media_tasks.py, the two helpers)\<close>

text \<open>
  \<^verbatim>\<open>session.query(Job).filter(Job.id == job_id).first()\<close> is the first row with that
  identifier; \<^verbatim>\<open>update_job\<close> applies its keyword arguments to that row, stamps
  \<^verbatim>\<open>updated_at\<close> and commits.
\<close>

fun update_first :: "uuid \<Rightarrow> (Job \<Rightarrow> Job) \<Rightarrow> Job list \<Rightarrow> Job list" where
  "update_first uid f [] = []"
| "update_first uid f (j # js) =
     (if job_id j = uid then f j # js else j # update_first uid f js)"

definition get_job_by_id :: "uuid \<Rightarrow> Job task" where
  "get_job_by_id uid s =
     (case find (\<lambda>j. job_id j = uid) (db s) of
        None \<Rightarrow> (Inl (ValueError (''Job '' @ uid @ '' not found'')), s)
      | Some job \<Rightarrow> (Inr job, s))"

definition update_job :: "world \<Rightarrow> uuid \<Rightarrow> (Job \<Rightarrow> Job) \<Rightarrow> Job task" where
  "update_job w uid updates s =
     (case find (\<lambda>j. job_id j = uid) (db s) of
        None \<Rightarrow> (Inl (ValueError (''Job '' @ uid @ '' not found'')), s)
      | Some job \<Rightarrow>
          (Inr ((updates job)\<lparr>updated_at := Some (utcnow w)\<rparr>),
           s\<lparr>db := update_first uid (\<lambda>j. (updates j)\<lparr>updated_at := Some (utcnow w)\<rparr>) (db s)\<rparr>))"

section \<open>The generation task (process_media_generation)\<close>

text \<open>The dictionary the task returns: \<^verbatim>\<open>status\<close> is \<^verbatim>\<open>completed\<close> or \<^verbatim>\<open>failed\<close>.\<close>

datatype task_result =
    Completed_result string int
  | Failed_result "string option"

text \<open>
  Lines 89 to 99. \<^verbatim>\<open>params\<close> is the empty dictionary unless \<^verbatim>\<open>job.parameters\<close> is a
  non-empty string; then it is what \<^verbatim>\<open>json.loads\<close> returns, or the empty dictionary again
  when \<^verbatim>\<open>json.loads\<close> raises \<^verbatim>\<open>JSONDecodeError\<close>, the one exception caught at line 94.
  In \<^verbatim>\<open>generate_image(prompt=..., model=..., **params)\<close> anything but an object is no
  mapping, and an object with a key that names a parameter of the method gives that
  parameter twice; both raise \<^verbatim>\<open>TypeError\<close>.
\<close>

definition load_params :: "world \<Rightarrow> Job \<Rightarrow> jval task" where
  "load_params w job =
     (case parameters job of
        None \<Rightarrow> return (JObj [])
      | Some text \<Rightarrow>
          if text \<noteq> []
          then try_except
                 (case json_loads w text of Inl e \<Rightarrow> raise e | Inr v \<Rightarrow> return v)
                 is_JSONDecodeError
                 (\<lambda>e. return (JObj []))
          else return (JObj []))"

definition keyword_arguments :: "jval \<Rightarrow> (string \<times> jval) list task" where
  "keyword_arguments params =
     (case params of
        JObj kwargs \<Rightarrow>
          if list_ex (\<lambda>k. k \<in> {''self'', ''prompt'', ''model''}) (map fst kwargs)
          then raise (TypeError ''generate_image() got multiple values for keyword argument'')
          else return kwargs
      | _ \<Rightarrow> raise (TypeError ''argument after ** must be a mapping''))"

fun dict_set :: "string \<Rightarrow> jval \<Rightarrow> (string \<times> jval) list \<Rightarrow> (string \<times> jval) list" where
  "dict_set k v [] = [(k, v)]"
| "dict_set k v (p # ps) = (if fst p = k then (k, v) # ps else p # dict_set k v ps)"

definition metadata_of :: "world \<Rightarrow> Job \<Rightarrow> string \<Rightarrow> (string \<times> jval) list \<Rightarrow> (string \<times> jval) list" where
  "metadata_of w job external_id kwargs =
     foldl (\<lambda>d (k, v). dict_set k v d)
       [(''prompt'', JStr (prompt job)),
        (''model_name'', JStr (model_name job)),
        (''external_job_id'', JStr external_id),
        (''created_at'', JStr (isoformat w (created_at job)))]
       kwargs"

text \<open>
  Step 1, lines 86 to 134. \<open>submit_generation\<close> is the body of \<^verbatim>\<open>if not job.external_job_id\<close>;
  the result of \<open>start_generation\<close> is the handle the poll loop then reads from
  \<^verbatim>\<open>job.external_job_id\<close>: the stored one, or the one just assigned at line 104.
\<close>

definition submit_generation :: "world \<Rightarrow> uuid \<Rightarrow> Job \<Rightarrow> string task" where
  "submit_generation w job_uuid job =
     try_except
       (bind (load_params w job) (\<lambda>params.
        bind (keyword_arguments params) (\<lambda>kwargs.
        bind (generate_image w (prompt job) (model_name job) kwargs) (\<lambda>external_id.
        bind (update_job w job_uuid (\<lambda>j. j\<lparr>external_job_id := Some external_id\<rparr>)) (\<lambda>_.
        bind (run_until_complete
                (save_metadata job_uuid (metadata_of w job external_id kwargs))) (\<lambda>_.
        return external_id))))))
       is_ReplicateAPIError
       (\<lambda>e. bind (update_job w job_uuid (\<lambda>j. j\<lparr>status := FAILED,
                     error_message := Some (''Failed to start generation: '' @ str_exn e),
                     completed_at := Some (utcnow w)\<rparr>)) (\<lambda>_.
             raise e))"

definition start_generation :: "world \<Rightarrow> uuid \<Rightarrow> Job \<Rightarrow> string task" where
  "start_generation w job_uuid job =
     (case external_job_id job of
        None \<Rightarrow> submit_generation w job_uuid job
      | Some handle \<Rightarrow>
          if handle = [] then submit_generation w job_uuid job else return handle)"

text \<open>
  Step 2, lines 136 to 213. \<open>poll_once\<close> is the body of the \<^verbatim>\<open>for\<close> loop: \<open>Some r\<close> when
  the task returns \<open>r\<close> from inside the loop, \<open>None\<close> when the loop goes on to its next
  round. A prediction that has succeeded without output takes no branch of the inner
  \<^verbatim>\<open>if\<close> and so goes on without sleeping. \<^verbatim>\<open>save_file\<close> is called without \<^verbatim>\<open>await\<close>.
\<close>

definition max_attempts :: nat where
  "max_attempts = 30"

definition error_text :: "string option \<Rightarrow> string" where
  "error_text v = (case v of None \<Rightarrow> ''None'' | Some m \<Rightarrow> m)"

definition poll_once :: "world \<Rightarrow> uuid \<Rightarrow> string \<Rightarrow> string \<Rightarrow> nat \<Rightarrow> task_result option task" where
  "poll_once w job_uuid handle p attempt =
     try_except
       (bind (check_job_status w attempt handle) (\<lambda>result.
          if p_status result = ''succeeded'' then
            (case p_output result of
               Value (image_url # others) \<Rightarrow>
                 bind (download_result w image_url p) (\<lambda>image_data.
                 bind (unpack_pair (save_file job_uuid image_data ''png'')) (\<lambda>(path, url).
                 bind (update_job w job_uuid (\<lambda>j. j\<lparr>status := COMPLETED,
                         result_url := Some url, file_path := Some path,
                         file_size := Some (int (length image_data)),
                         completed_at := Some (utcnow w)\<rparr>)) (\<lambda>_.
                 return (Some (Completed_result url (int (length image_data)))))))
             | _ \<Rightarrow> return None)
          else if p_status result = ''failed'' then
            (let error_msg = (case p_error result of
                                Missing \<Rightarrow> Some ''Unknown error from Replicate''
                              | Null \<Rightarrow> None
                              | Value m \<Rightarrow> Some m)
             in bind (update_job w job_uuid (\<lambda>j. j\<lparr>status := FAILED,
                        error_message := Some (''Generation failed: '' @ error_text error_msg),
                        completed_at := Some (utcnow w)\<rparr>)) (\<lambda>_.
                return (Some (Failed_result error_msg))))
          else bind (sleep 10) (\<lambda>_. return None)))
       is_ReplicateAPIError
       (\<lambda>e. bind (update_job w job_uuid (\<lambda>j. j\<lparr>status := FAILED,
                     error_message := Some (''API error: '' @ str_exn e),
                     completed_at := Some (utcnow w)\<rparr>)) (\<lambda>_.
             raise e))"

text \<open>\<^verbatim>\<open>for attempt in range(max_attempts)\<close>, from round \<open>attempt\<close> with \<open>n\<close> rounds left.\<close>

fun poll_loop :: "world \<Rightarrow> uuid \<Rightarrow> string \<Rightarrow> string \<Rightarrow> nat \<Rightarrow> nat \<Rightarrow> task_result option task" where
  "poll_loop w job_uuid handle p attempt 0 = return None"
| "poll_loop w job_uuid handle p attempt (Suc n) =
     bind (poll_once w job_uuid handle p attempt) (\<lambda>r.
       (case r of
          Some v \<Rightarrow> return (Some v)
        | None \<Rightarrow> poll_loop w job_uuid handle p (Suc attempt) n))"

definition poll_for_completion :: "world \<Rightarrow> uuid \<Rightarrow> string \<Rightarrow> string \<Rightarrow> task_result task" where
  "poll_for_completion w job_uuid handle p =
     bind (poll_loop w job_uuid handle p 0 max_attempts) (\<lambda>r.
       (case r of
          Some v \<Rightarrow> return v
        | None \<Rightarrow>
            bind (update_job w job_uuid (\<lambda>j. j\<lparr>status := FAILED,
                    error_message := Some ''Job timed out after 5 minutes'',
                    completed_at := Some (utcnow w)\<rparr>)) (\<lambda>_.
            return (Failed_result (Some ''Job timed out'')))))"

text \<open>
  The task. \<open>retries\<close> is \<^verbatim>\<open>self.request.retries\<close>, the number of retries of this task so
  far, which the invoking layer supplies (0 on the first run). \<open>generation_attempt\<close> is the
  body of the outer \<^verbatim>\<open>try\<close>, lines 72 to 213; \<open>unexpected_error\<close> is the handler of the
  outer \<^verbatim>\<open>except Exception\<close>, lines 215 to 228: it records the failure, ignores a failure
  of that update, and raises the exception again.
\<close>

definition generation_attempt :: "int \<Rightarrow> world \<Rightarrow> uuid \<Rightarrow> task_result task" where
  "generation_attempt retries w job_uuid =
     bind (get_job_by_id job_uuid) (\<lambda>job.
     bind (update_job w job_uuid (\<lambda>j. j\<lparr>status := PROCESSING,
             started_at := Some (utcnow w), retry_count := retries\<rparr>)) (\<lambda>_.
     bind (start_generation w job_uuid job) (\<lambda>handle.
     poll_for_completion w job_uuid handle (prompt job))))"

definition unexpected_error :: "world \<Rightarrow> uuid \<Rightarrow> exn \<Rightarrow> task_result task" where
  "unexpected_error w job_uuid e =
     bind (try_except
             (bind (update_job w job_uuid (\<lambda>j. j\<lparr>status := FAILED,
                      error_message := Some (''Unexpected error: '' @ str_exn e),
                      completed_at := Some (utcnow w)\<rparr>)) (\<lambda>_. return ()))
             is_Exception
             (\<lambda>_. return ())) (\<lambda>_.
     raise e)"

definition process_media_generation :: "int \<Rightarrow> world \<Rightarrow> uuid \<Rightarrow> task_result task" where
  "process_media_generation retries w job_uuid =
     try_except (generation_attempt retries w job_uuid) is_Exception
       (unexpected_error w job_uuid)"

section \<open>The retention sweep (cleanup_old_files)\<close>

text \<open>
  The body of the loop over \<^verbatim>\<open>old_jobs\<close>. \<^verbatim>\<open>delete_file\<close> is an \<^verbatim>\<open>async def\<close> method and the
  call is not awaited, so the condition tests the coroutine object.
\<close>

fun cleanup_loop :: "world \<Rightarrow> Job list \<Rightarrow> int \<Rightarrow> int task" where
  "cleanup_loop w [] deleted_count = return deleted_count"
| "cleanup_loop w (job # old_jobs) deleted_count =
     bind (try_except
             (if bool_of_object (delete_file (job_id job) ''png'')
              then bind (update_job w (job_id job)
                           (\<lambda>j. j\<lparr>file_path := None, result_url := None\<rparr>)) (\<lambda>_.
                   return (deleted_count + 1))
              else return deleted_count)
             is_StorageError
             (\<lambda>e. return deleted_count)) (\<lambda>n.
     cleanup_loop w old_jobs n)"

definition is_old_job :: "datetime \<Rightarrow> Job \<Rightarrow> bool" where
  "is_old_job cutoff_date j =
     (status j = COMPLETED
      \<and> (case completed_at j of None \<Rightarrow> False | Some t \<Rightarrow> t < cutoff_date)
      \<and> file_path j \<noteq> None)"

definition cleanup_old_files :: "world \<Rightarrow> int \<Rightarrow> int task" where
  "cleanup_old_files w days_old s =
     cleanup_loop w (filter (is_old_job (utcnow w - days_old * 86400)) (db s)) 0 s"

section \<open>Cancellation (app/api/media.py, cancel_job)\<close>

datatype http_exception = HTTP_404_NOT_FOUND | HTTP_400_BAD_REQUEST JobStatus

definition cancel_job :: "uuid \<Rightarrow> Job list \<Rightarrow> (http_exception + string) \<times> Job list" where
  "cancel_job uid jobs =
     (case find (\<lambda>j. job_id j = uid) jobs of
        None \<Rightarrow> (Inl HTTP_404_NOT_FOUND, jobs)
      | Some job \<Rightarrow>
          if status job \<in> {COMPLETED, FAILED, CANCELLED}
          then (Inl (HTTP_400_BAD_REQUEST (status job)), jobs)
          else (Inr (''Job '' @ uid @ '' cancelled successfully''),
                update_first uid (\<lambda>j. j\<lparr>status := CANCELLED\<rparr>) jobs))"

section \<open>Predicates for stating and proving the properties\<close>

text \<open>
  \<open>on_job uid P s\<close>: the table of \<open>s\<close> has a row \<open>uid\<close> and \<open>P\<close> holds of it.
  \<open>preserves I m\<close>: the computation \<open>m\<close> keeps \<open>I\<close>, whether it returns or raises.
  The three notions of stability say which updates of a row do not disturb \<open>P\<close>: those
  that record an outcome, those of one task run after its first update, and those of a
  whole task run.
\<close>

definition on_job :: "uuid \<Rightarrow> (Job \<Rightarrow> bool) \<Rightarrow> state \<Rightarrow> bool" where
  "on_job uid P s = (case find (\<lambda>j. job_id j = uid) (db s) of None \<Rightarrow> False | Some j \<Rightarrow> P j)"

definition preserves :: "(state \<Rightarrow> bool) \<Rightarrow> 'a task \<Rightarrow> bool" where
  "preserves I m = (\<forall>s. I s \<longrightarrow> I (snd (m s)))"

definition outcome_stable :: "(Job \<Rightarrow> bool) \<Rightarrow> bool" where
  "outcome_stable P = (\<forall>j st em ca ua. P j \<longrightarrow>
     P (j\<lparr>status := st, error_message := em, completed_at := ca, updated_at := ua\<rparr>))"

definition run_stable :: "(Job \<Rightarrow> bool) \<Rightarrow> bool" where
  "run_stable P = (outcome_stable P \<and> (\<forall>j ej ua. P j \<longrightarrow> P (j\<lparr>external_job_id := ej, updated_at := ua\<rparr>)))"

definition failed_with_error :: "Job \<Rightarrow> bool" where
  "failed_with_error j = (status j = FAILED \<and> error_nonempty j)"

definition attempt_stable :: "(Job \<Rightarrow> bool) \<Rightarrow> bool" where
  "attempt_stable P = (run_stable P \<and> (\<forall>j st sa rc ua. P j \<longrightarrow>
      P (j\<lparr>status := st, started_at := sa, retry_count := rc, updated_at := ua\<rparr>)))"

text \<open>A small world for examples: a newly created job, and a service that accepts
  the submission as \<^verbatim>\<open>ext-1\<close> and reports the prediction failed at every poll.\<close>

definition demo_world :: world where
  "demo_world =
     \<lparr>utcnow = 1000, json_loads = (\<lambda>text. Inl (JSONDecodeError ''Expecting value'')),
      create_prediction = (\<lambda>model input_data. Inr ''ext-1''),
      get_prediction = (\<lambda>attempt handle.
        Inr \<lparr>p_status = ''failed'', p_output = Null, p_error = Value ''out of memory''\<rparr>),
      http_download = (\<lambda>url. Inr ''PNG''), isoformat = (\<lambda>t. ''T'')\<rparr>"

definition demo_storage :: storage where
  "demo_storage =
     \<lparr>base_path = ''storage/media'', metadata_path = ''storage/metadata'',
      base_url = ''http://localhost:8000/media'', files = Map.empty,
      metadata_files = Map.empty, io_error = None\<rparr>"

definition demo_job :: Job where
  "demo_job = create_job ''j1'' 5 ''a cat'' ''stable-diffusion'' None PENDING"

definition demo_state :: state where
  "demo_state = \<lparr>db = [demo_job], fs = demo_storage, trace = []\<rparr>"

text \<open>Which of the recorded calls are submissions, and the property that a run has added
  none to the calls made \<open>before\<close> it.\<close>

fun is_CreatePrediction :: "call \<Rightarrow> bool" where
  "is_CreatePrediction (CreatePrediction model input_data) = True"
| "is_CreatePrediction c = False"

definition no_new_submit :: "call list \<Rightarrow> state \<Rightarrow> bool" where
  "no_new_submit before s =
     (\<exists>calls. trace s = before @ calls \<and> \<not> list_ex is_CreatePrediction calls)"

text \<open>Two more jobs for examples: one that is \<^verbatim>\<open>COMPLETED\<close>, with its handle and its result,
  and one that was submitted as \<^verbatim>\<open>ext-1\<close> by an earlier run that did not finish.\<close>

definition finished_job :: Job where
  "finished_job = demo_job\<lparr>status := COMPLETED, started_at := Some 800,
     completed_at := Some 900, updated_at := Some 900, external_job_id := Some ''ext-1'',
     result_url := Some ''http://localhost:8000/media/j1.png'',
     file_path := Some ''storage/media/j1.png'', file_size := Some 3\<rparr>"

definition finished_state :: state where
  "finished_state = \<lparr>db = [finished_job],
     fs = demo_storage\<lparr>files := [''storage/media/j1.png'' \<mapsto> ''PNG'']\<rparr>, trace = []\<rparr>"

definition resumed_job :: Job where
  "resumed_job = demo_job\<lparr>status := PROCESSING, started_at := Some 800,
     updated_at := Some 800, external_job_id := Some ''ext-1''\<rparr>"

definition resumed_state :: state where
  "resumed_state = \<lparr>db = [resumed_job], fs = demo_storage, trace = []\<rparr>"

text \<open>The example world with a prediction that stays in progress at every poll.\<close>

definition waiting_world :: world where
  "waiting_world = demo_world\<lparr>get_prediction := (\<lambda>attempt handle.
     Inr \<lparr>p_status = ''processing'', p_output = Null, p_error = Null\<rparr>)\<rparr>"

text \<open>Three more example worlds: every poll reports \<^verbatim>\<open>succeeded\<close> with an empty output
  list; the submission times out; the third poll fails with a network error.\<close>

definition empty_output_world :: world where
  "empty_output_world = demo_world\<lparr>get_prediction := (\<lambda>attempt handle.
     Inr \<lparr>p_status = ''succeeded'', p_output = Value [], p_error = Null\<rparr>)\<rparr>"

definition timeout_world :: world where
  "timeout_world = demo_world\<lparr>create_prediction := (\<lambda>model input_data.
     Inl (ReplicateAPIError ''Request timed out''))\<rparr>"

definition flaky_world :: world where
  "flaky_world = demo_world\<lparr>get_prediction := (\<lambda>attempt handle.
     if attempt < 2 then Inr \<lparr>p_status = ''processing'', p_output = Null, p_error = Null\<rparr>
     else Inl (ReplicateAPIError ''Network error: connection reset''))\<rparr>"

text \<open>The example world a long time later, when the retention sweep runs.\<close>

definition sweep_world :: world where
  "sweep_world = demo_world\<lparr>utcnow := 1000000\<rparr>"

text \<open>The calls of a state begin with the calls \<open>before\<close>; and an example job whose
  \<^verbatim>\<open>parameters\<close> are no JSON text.\<close>

definition trace_from :: "call list \<Rightarrow> state \<Rightarrow> bool" where
  "trace_from before s = (\<exists>calls. trace s = before @ calls)"

definition bad_json_job :: Job where
  "bad_json_job = demo_job\<lparr>parameters := Some ''{width: 512''\<rparr>"

definition bad_json_state :: state where
  "bad_json_state = \<lparr>db = [bad_json_job], fs = demo_storage, trace = []\<rparr>"

text \<open>What a caller can read off a failed job about the failure \<open>m\<close>: the stored
  \<^verbatim>\<open>error_message\<close> is not empty and ends with the text \<open>m\<close> (the task puts the place where
  the failure was caught in front of it).\<close>

definition ends_with :: "string \<Rightarrow> string \<Rightarrow> bool" where
  "ends_with m text = (length m \<le> length text \<and> drop (length text - length m) text = m)"

definition records_error :: "string \<Rightarrow> Job \<Rightarrow> bool" where
  "records_error m j =
     (case error_message j of None \<Rightarrow> False | Some text \<Rightarrow> text \<noteq> [] \<and> ends_with m text)"

text \<open>An example job whose \<^verbatim>\<open>parameters\<close> are a hundred thousand opening brackets, and
  the example world in which \<^verbatim>\<open>json.loads\<close> gives up on that text with \<^verbatim>\<open>RecursionError\<close>, as
  the decoder of CPython does.\<close>

definition deep_json_job :: Job where
  "deep_json_job = demo_job\<lparr>parameters := Some (replicate 100000 (CHR ''[''))\<rparr>"

definition deep_json_state :: state where
  "deep_json_state = \<lparr>db = [deep_json_job], fs = demo_storage, trace = []\<rparr>"

definition deep_json_world :: world where
  "deep_json_world = demo_world\<lparr>json_loads := (\<lambda>text.
     if text = replicate 100000 (CHR ''['')
     then Inl (RecursionError
       ''maximum recursion depth exceeded while decoding a JSON array from a unicode string'')
     else json_loads demo_world text)\<rparr>"

section \<open>Basic facts\<close>

lemma bind_return [simp]: "bind (return x) f = f x"
  by (rule ext) (simp add: bind_def return_def)

lemma bind_raise [simp]: "bind (raise e) f = raise e"
  by (rule ext) (simp add: bind_def raise_def)

lemma try_except_return [simp]: "try_except (return x) c h = return x"
  by (rule ext) (simp add: try_except_def return_def)

lemma try_except_raise [simp]: "try_except (raise e) c h = (if c e then h e else raise e)"
  by (rule ext) (simp add: try_except_def raise_def)

lemma unpack_save_file [simp]:
  "unpack_pair (save_file uid d ext) = raise (TypeError ''cannot unpack non-iterable coroutine object'')"
  by (simp add: save_file_def)

lemma bool_delete_file [simp]: "bool_of_object (delete_file uid ext)"
  by (simp add: delete_file_def)

lemma find_update_first:
  "(\<And>j. job_id (f j) = job_id j) \<Longrightarrow>
   find (\<lambda>j. job_id j = uid) (update_first uid f jobs) = map_option f (find (\<lambda>j. job_id j = uid) jobs)"
  by (induction jobs) auto

lemma find_update_first_other:
  "(\<And>j. job_id (f j) = job_id j) \<Longrightarrow> uid' \<noteq> uid \<Longrightarrow>
   find (\<lambda>j. job_id j = uid') (update_first uid f jobs) = find (\<lambda>j. job_id j = uid') jobs"
  by (induction jobs) auto

lemma update_first_twice:
  "(\<And>j. job_id (f j) = job_id j) \<Longrightarrow>
   update_first uid g (update_first uid f jobs) = update_first uid (\<lambda>j. g (f j)) jobs"
  by (induction jobs) auto

lemma update_job_found:
  "find (\<lambda>j. job_id j = uid) (db s) = Some job \<Longrightarrow>
   update_job w uid f s =
     (Inr ((f job)\<lparr>updated_at := Some (utcnow w)\<rparr>),
      s\<lparr>db := update_first uid (\<lambda>j. (f j)\<lparr>updated_at := Some (utcnow w)\<rparr>) (db s)\<rparr>)"
  by (simp add: update_job_def)

lemma update_job_missing:
  "find (\<lambda>j. job_id j = uid) (db s) = None \<Longrightarrow>
   update_job w uid f s = (Inl (ValueError (''Job '' @ uid @ '' not found'')), s)"
  by (simp add: update_job_def)

lemma preserves_return: "preserves I (return x)"
  by (simp add: preserves_def return_def)

lemma preserves_raise: "preserves I (raise e)"
  by (simp add: preserves_def raise_def)

lemma preserves_bind:
  "preserves I m \<Longrightarrow> (\<And>x. preserves I (f x)) \<Longrightarrow> preserves I (bind m f)"
  unfolding preserves_def bind_def
  by (auto split: prod.splits sum.splits)

lemma preserves_try:
  "preserves I m \<Longrightarrow> (\<And>e. preserves I (h e)) \<Longrightarrow> preserves I (try_except m c h)"
  unfolding preserves_def try_except_def
  by (auto split: prod.splits sum.splits)

lemma preserves_record_call: "preserves (on_job uid P) (record_call c)"
  by (simp add: preserves_def record_call_def on_job_def)

lemma preserves_update_job:
  "(\<And>j. P j \<Longrightarrow> P ((f j)\<lparr>updated_at := Some (utcnow w)\<rparr>)) \<Longrightarrow>
   (\<And>j. job_id (f j) = job_id j) \<Longrightarrow>
   preserves (on_job uid P) (update_job w uid f)"
  unfolding preserves_def on_job_def
  by (auto simp: update_job_def find_update_first split: option.splits)

lemma outcome_stableD:
  "outcome_stable P \<Longrightarrow> P j \<Longrightarrow>
   P (j\<lparr>status := st, error_message := em, completed_at := ca, updated_at := ua\<rparr>)"
  by (simp add: outcome_stable_def)

lemma preserves_poll_once:
  assumes "outcome_stable P"
  shows "preserves (on_job uid P) (poll_once w uid handle p attempt)"
  unfolding poll_once_def check_job_status_def download_result_def sleep_def Let_def
  by (intro preserves_try preserves_bind preserves_record_call preserves_update_job
        preserves_return preserves_raise)
     (auto intro!: preserves_try preserves_bind preserves_record_call preserves_update_job
        preserves_return preserves_raise outcome_stableD[OF assms]
        split: sum.splits field.splits list.splits)

lemma preserves_poll_loop:
  assumes "outcome_stable P"
  shows "preserves (on_job uid P) (poll_loop w uid handle p attempt n)"
  by (induction n arbitrary: attempt)
     (auto intro!: preserves_bind preserves_return preserves_poll_once[OF assms] split: option.splits)

lemma preserves_poll_for_completion:
  assumes "outcome_stable P"
  shows "preserves (on_job uid P) (poll_for_completion w uid handle p)"
  unfolding poll_for_completion_def
  by (auto intro!: preserves_bind preserves_return preserves_poll_loop[OF assms]
        preserves_update_job outcome_stableD[OF assms] split: option.splits)

lemma preserves_save_metadata:
  "preserves (on_job uid P) (run_until_complete (save_metadata uid' md))"
  by (simp add: preserves_def save_metadata_def on_job_def split: option.splits)

lemma load_params_state: "load_params w job s = (r, s') \<Longrightarrow> s' = s"
  by (auto simp: load_params_def try_except_def return_def raise_def
        split: option.splits if_splits sum.splits)

lemma preserves_load_params: "preserves I (load_params w job)"
  unfolding preserves_def
  by (metis load_params_state surjective_pairing)

lemma preserves_keyword_arguments: "preserves I (keyword_arguments v)"
  unfolding keyword_arguments_def
  by (auto intro: preserves_return preserves_raise split: jval.splits)

lemma preserves_generate_image: "preserves (on_job uid P) (generate_image w p m kw)"
  unfolding generate_image_def
  by (auto intro!: preserves_bind preserves_record_call preserves_return preserves_raise
        split: sum.splits)

lemma preserves_submit_generation:
  assumes "run_stable P"
  shows "preserves (on_job uid P) (submit_generation w uid job)"
proof -
  have os: "outcome_stable P" and ej: "\<And>j ej ua. P j \<Longrightarrow> P (j\<lparr>external_job_id := ej, updated_at := ua\<rparr>)"
    using assms by (auto simp: run_stable_def)
  show ?thesis
    unfolding submit_generation_def
    by (intro preserves_try preserves_bind preserves_load_params preserves_keyword_arguments
          preserves_generate_image preserves_update_job preserves_save_metadata
          preserves_return preserves_raise)
       (auto intro: ej outcome_stableD[OF os])
qed

lemma preserves_start_generation:
  assumes "run_stable P"
  shows "preserves (on_job uid P) (start_generation w uid job)"
  unfolding start_generation_def
  by (auto intro: preserves_return preserves_submit_generation[OF assms] split: option.splits)

lemma on_job_exists: "on_job uid P s \<Longrightarrow> on_job uid (\<lambda>_. True) s"
  by (simp add: on_job_def split: option.splits)

lemma outcome_stable_True: "outcome_stable (\<lambda>_. True)"
  by (simp add: outcome_stable_def)

lemma preservesD: "preserves I m \<Longrightarrow> I s \<Longrightarrow> m s = (r, s') \<Longrightarrow> I s'"
  by (auto simp: preserves_def)

lemma update_job_failed:
  assumes "on_job uid (\<lambda>_. True) s" and "m \<noteq> []"
  shows "\<exists>j s'. update_job w uid (\<lambda>j. j\<lparr>status := FAILED, error_message := Some m,
            completed_at := Some t\<rparr>) s = (Inr j, s') \<and> on_job uid failed_with_error s'"
  using assms
  by (auto simp: on_job_def update_job_def find_update_first failed_with_error_def
        error_nonempty_def truthy_def split: option.splits)

lemma poll_once_returns:
  assumes "on_job uid (\<lambda>_. True) s" and "poll_once w uid handle p attempt s = (Inr (Some v), s')"
  shows "on_job uid failed_with_error s'"
proof -
  obtain s1 where s1: "record_call (GetPrediction handle) s = (Inr (), s1)"
    and ex1: "on_job uid (\<lambda>_. True) s1"
    using assms(1) by (simp add: record_call_def on_job_def)
  show ?thesis
  proof (cases "get_prediction w attempt handle")
    case (Inl e)
    then show ?thesis
      using assms(2) s1 update_job_failed[OF ex1, of "''API error: '' @ str_exn e" w "utcnow w"]
      by (auto simp: poll_once_def check_job_status_def bind_def try_except_def raise_def
            return_def split: if_splits)
  next
    case (Inr result)
    show ?thesis
    proof (cases "p_status result = ''succeeded''")
      case True
      then show ?thesis
        using assms(2) s1 Inr
        by (auto simp: poll_once_def check_job_status_def download_result_def bind_def
              try_except_def raise_def return_def record_call_def update_job_def
              split: if_splits field.splits list.splits sum.splits option.splits)
    next
      case False
      note ns = this
      show ?thesis
      proof (cases "p_status result = ''failed''")
        case True
        then show ?thesis
          using assms(2) s1 Inr ns
            update_job_failed[OF ex1, of "''Generation failed: '' @ error_text
               (case p_error result of Missing \<Rightarrow> Some ''Unknown error from Replicate''
                | Null \<Rightarrow> None | Value m \<Rightarrow> Some m)" w "utcnow w"]
          by (auto simp: poll_once_def check_job_status_def bind_def try_except_def
                return_def Let_def)
      next
        case False
        then show ?thesis
          using assms(2) s1 Inr ns
          by (auto simp: poll_once_def check_job_status_def bind_def try_except_def
                return_def sleep_def record_call_def)
      qed
    qed
  qed
qed

lemma poll_loop_returns:
  "on_job uid (\<lambda>_. True) s \<Longrightarrow> poll_loop w uid handle p attempt n s = (Inr (Some v), s') \<Longrightarrow>
   on_job uid failed_with_error s'"
proof (induction n arbitrary: attempt s)
  case 0
  then show ?case by (simp add: return_def)
next
  case (Suc n)
  obtain r s1 where step: "poll_once w uid handle p attempt s = (r, s1)"
    by (cases "poll_once w uid handle p attempt s")
  have ex1: "on_job uid (\<lambda>_. True) s1"
    using preservesD[OF preserves_poll_once[OF outcome_stable_True] Suc.prems(1) step] .
  show ?case
  proof (cases r)
    case (Inl e)
    then show ?thesis using Suc.prems(2) step by (simp add: bind_def)
  next
    case (Inr x)
    show ?thesis
    proof (cases x)
      case None
      then have "poll_loop w uid handle p (Suc attempt) n s1 = (Inr (Some v), s')"
        using Suc.prems(2) step Inr by (simp add: bind_def)
      then show ?thesis using Suc.IH[OF ex1] by simp
    next
      case (Some v')
      then have "s1 = s'" and "v' = v"
        using Suc.prems(2) step Inr by (simp_all add: bind_def return_def)
      then show ?thesis
        using poll_once_returns[OF Suc.prems(1)] step Inr Some by simp
    qed
  qed
qed

lemma poll_for_completion_returns:
  assumes "on_job uid (\<lambda>_. True) s" and "poll_for_completion w uid handle p s = (Inr v, s')"
  shows "on_job uid failed_with_error s'"
proof -
  obtain r s1 where loop: "poll_loop w uid handle p 0 max_attempts s = (r, s1)"
    by (cases "poll_loop w uid handle p 0 max_attempts s")
  have ex1: "on_job uid (\<lambda>_. True) s1"
    using preservesD[OF preserves_poll_loop[OF outcome_stable_True] assms(1) loop] .
  show ?thesis
  proof (cases r)
    case (Inl e)
    then show ?thesis using assms(2) loop by (simp add: poll_for_completion_def bind_def)
  next
    case (Inr x)
    show ?thesis
    proof (cases x)
      case None
      then show ?thesis
        using assms(2) loop Inr
          update_job_failed[OF ex1, of "''Job timed out after 5 minutes''" w "utcnow w"]
        by (auto simp: poll_for_completion_def bind_def return_def)
    next
      case (Some v')
      then show ?thesis
        using assms(2) loop Inr poll_loop_returns[OF assms(1)]
        by (auto simp: poll_for_completion_def bind_def return_def)
    qed
  qed
qed

lemma unexpected_error_fails:
  assumes "on_job uid (\<lambda>_. True) s"
  shows "\<exists>s'. unexpected_error w uid e s = (Inl e, s') \<and> on_job uid failed_with_error s'"
  using update_job_failed[OF assms, of "''Unexpected error: '' @ str_exn e" w "utcnow w"]
  by (auto simp: unexpected_error_def bind_def try_except_def return_def raise_def)

lemma preserves_unexpected_error:
  assumes "outcome_stable P"
  shows "preserves (on_job uid P) (unexpected_error w uid e)"
  unfolding unexpected_error_def
  by (intro preserves_bind preserves_try preserves_update_job preserves_return preserves_raise)
     (auto intro: outcome_stableD[OF assms])

lemma preserves_get_job_by_id: "preserves I (get_job_by_id uid)"
  by (simp add: preserves_def get_job_by_id_def split: option.splits)

lemma preserves_generation_attempt:
  assumes "attempt_stable P"
  shows "preserves (on_job uid P) (generation_attempt retries w uid)"
proof -
  have rs: "run_stable P" and os: "outcome_stable P"
    and first: "\<And>j st sa rc ua. P j \<Longrightarrow>
       P (j\<lparr>status := st, started_at := sa, retry_count := rc, updated_at := ua\<rparr>)"
    using assms by (auto simp: attempt_stable_def run_stable_def)
  show ?thesis
    unfolding generation_attempt_def
    by (intro preserves_bind preserves_get_job_by_id preserves_update_job
          preserves_start_generation[OF rs] preserves_poll_for_completion[OF os])
       (auto intro: first)
qed

lemma preserves_process_media_generation:
  assumes "attempt_stable P"
  shows "preserves (on_job uid P) (process_media_generation retries w uid)"
  unfolding process_media_generation_def
  using assms
  by (intro preserves_try preserves_generation_attempt preserves_unexpected_error)
     (auto simp: attempt_stable_def run_stable_def)

lemma bind_Inr_elim:
  assumes "bind m f s = (Inr y, s')"
  obtains x s1 where "m s = (Inr x, s1)" and "f x s1 = (Inr y, s')"
  using assms by (auto simp: bind_def split: prod.splits sum.splits)

lemma attempt_stable_True: "attempt_stable (\<lambda>_. True)"
  by (simp add: attempt_stable_def run_stable_def outcome_stable_def)

lemma generation_attempt_returns:
  assumes "on_job uid (\<lambda>_. True) s" and "generation_attempt retries w uid s = (Inr v, s')"
  shows "on_job uid failed_with_error s'"
proof -
  let ?first = "update_job w uid (\<lambda>j. j\<lparr>status := PROCESSING,
                  started_at := Some (utcnow w), retry_count := retries\<rparr>)"
  from assms(2)[unfolded generation_attempt_def]
  obtain job sa where g: "get_job_by_id uid s = (Inr job, sa)"
    and r1: "bind ?first (\<lambda>_. bind (start_generation w uid job) (\<lambda>handle.
                 poll_for_completion w uid handle (prompt job))) sa = (Inr v, s')"
    by (rule bind_Inr_elim)
  from r1 obtain x sb where u: "?first sa = (Inr x, sb)"
    and r2: "bind (start_generation w uid job) (\<lambda>handle.
                 poll_for_completion w uid handle (prompt job)) sb = (Inr v, s')"
    by (rule bind_Inr_elim)
  from r2 obtain handle sc where st: "start_generation w uid job sb = (Inr handle, sc)"
    and r3: "poll_for_completion w uid handle (prompt job) sc = (Inr v, s')"
    by (rule bind_Inr_elim)
  have "sa = s"
    using g by (auto simp: get_job_by_id_def split: option.splits)
  then have "on_job uid (\<lambda>_. True) sa"
    using assms(1) by simp
  then have "on_job uid (\<lambda>_. True) sb"
    using preservesD[OF preserves_update_job _ u] by simp
  then have "on_job uid (\<lambda>_. True) sc"
    using preservesD[OF preserves_start_generation _ st]
    by (simp add: run_stable_def outcome_stable_def)
  then show ?thesis
    using poll_for_completion_returns r3 by blast
qed

lemma process_ends_failed:
  assumes "on_job uid (\<lambda>_. True) s"
  shows "on_job uid failed_with_error (snd (process_media_generation retries w uid s))"
proof -
  obtain r s1 where body: "generation_attempt retries w uid s = (r, s1)"
    by (cases "generation_attempt retries w uid s")
  have ex1: "on_job uid (\<lambda>_. True) s1"
    using preservesD[OF preserves_generation_attempt[OF attempt_stable_True] assms body] .
  show ?thesis
  proof (cases r)
    case (Inl e)
    obtain s' where "unexpected_error w uid e s1 = (Inl e, s')"
      and "on_job uid failed_with_error s'"
      using unexpected_error_fails[OF ex1] by blast
    then show ?thesis
      using body Inl by (simp add: process_media_generation_def try_except_def is_Exception_def)
  next
    case (Inr v)
    then show ?thesis
      using body generation_attempt_returns[OF assms]
      by (simp add: process_media_generation_def try_except_def)
  qed
qed

lemma get_job_by_id_found:
  "find (\<lambda>j. job_id j = uid) (db s) = Some job \<Longrightarrow> get_job_by_id uid s = (Inr job, s)"
  by (simp add: get_job_by_id_def)

lemma generation_attempt_found:
  assumes "find (\<lambda>j. job_id j = uid) (db s) = Some job"
  shows "generation_attempt retries w uid s =
     bind (start_generation w uid job) (\<lambda>handle. poll_for_completion w uid handle (prompt job))
       (s\<lparr>db := update_first uid (\<lambda>j. j\<lparr>status := PROCESSING, started_at := Some (utcnow w),
              retry_count := retries, updated_at := Some (utcnow w)\<rparr>) (db s)\<rparr>)"
  using assms
  by (simp add: generation_attempt_def bind_def get_job_by_id_found update_job_found)

lemma generation_attempt_missing:
  assumes "find (\<lambda>j. job_id j = uid) (db s) = None"
  shows "generation_attempt retries w uid s = (Inl (ValueError (''Job '' @ uid @ '' not found'')), s)"
  using assms by (simp add: generation_attempt_def bind_def get_job_by_id_def)

lemma unexpected_error_found:
  assumes "find (\<lambda>j. job_id j = uid) (db s) = Some job"
  shows "unexpected_error w uid e s =
     (Inl e, s\<lparr>db := update_first uid (\<lambda>j. j\<lparr>status := FAILED,
        error_message := Some (''Unexpected error: '' @ str_exn e),
        completed_at := Some (utcnow w), updated_at := Some (utcnow w)\<rparr>) (db s)\<rparr>)"
  using assms
  by (simp add: unexpected_error_def bind_def try_except_def return_def raise_def update_job_found)

lemma unexpected_error_missing:
  assumes "find (\<lambda>j. job_id j = uid) (db s) = None"
  shows "unexpected_error w uid e s = (Inl e, s)"
  using assms
  by (simp add: unexpected_error_def bind_def try_except_def return_def raise_def
        update_job_missing is_Exception_def)

lemma poll_once_in_progress:
  assumes "get_prediction w attempt handle = Inr result"
    and "p_status result \<noteq> ''succeeded''" and "p_status result \<noteq> ''failed''"
  shows "poll_once w uid handle p attempt s =
     (Inr None, s\<lparr>trace := trace s @ [GetPrediction handle, Sleep 10]\<rparr>)"
  using assms
  by (simp add: poll_once_def check_job_status_def bind_def try_except_def return_def
        sleep_def record_call_def)

lemma poll_once_no_output:
  assumes "get_prediction w attempt handle = Inr result"
    and "p_status result = ''succeeded''"
    and "p_output result = Missing \<or> p_output result = Null \<or> p_output result = Value []"
  shows "poll_once w uid handle p attempt s =
     (Inr None, s\<lparr>trace := trace s @ [GetPrediction handle]\<rparr>)"
  using assms
  by (auto simp: poll_once_def check_job_status_def bind_def try_except_def return_def
        record_call_def)

lemma poll_loop_rounds:
  assumes "\<And>i s. i < n \<Longrightarrow>
     poll_once w uid handle p (attempt + i) s = (Inr None, s\<lparr>trace := trace s @ cs\<rparr>)"
  shows "poll_loop w uid handle p attempt n s =
     (Inr None, s\<lparr>trace := trace s @ concat (replicate n cs)\<rparr>)"
  using assms
proof (induction n arbitrary: attempt s)
  case 0
  then show ?case by (simp add: return_def)
next
  case (Suc n)
  have first: "poll_once w uid handle p attempt s = (Inr None, s\<lparr>trace := trace s @ cs\<rparr>)"
    using Suc.prems[of 0 s] by simp
  have rest: "poll_loop w uid handle p (Suc attempt) n (s\<lparr>trace := trace s @ cs\<rparr>) =
     (Inr None, s\<lparr>trace := trace s @ cs\<rparr>\<lparr>trace := trace (s\<lparr>trace := trace s @ cs\<rparr>) @ concat (replicate n cs)\<rparr>)"
  proof (rule Suc.IH)
    fix i s'
    assume "i < n"
    then show "poll_once w uid handle p (Suc attempt + i) s' = (Inr None, s'\<lparr>trace := trace s' @ cs\<rparr>)"
      using Suc.prems[of "Suc i" s'] by simp
  qed
  show ?case
    using first rest by (simp add: bind_def)
qed

lemma poll_for_completion_timeout:
  assumes "find (\<lambda>j. job_id j = uid) (db s) = Some job"
    and "\<And>i s. i < max_attempts \<Longrightarrow>
     poll_once w uid handle p i s = (Inr None, s\<lparr>trace := trace s @ cs\<rparr>)"
  shows "poll_for_completion w uid handle p s =
     (Inr (Failed_result (Some ''Job timed out'')),
      s\<lparr>trace := trace s @ concat (replicate max_attempts cs),
        db := update_first uid (\<lambda>j. j\<lparr>status := FAILED,
          error_message := Some ''Job timed out after 5 minutes'',
          completed_at := Some (utcnow w), updated_at := Some (utcnow w)\<rparr>) (db s)\<rparr>)"
proof -
  have "poll_loop w uid handle p 0 max_attempts s =
     (Inr None, s\<lparr>trace := trace s @ concat (replicate max_attempts cs)\<rparr>)"
    by (rule poll_loop_rounds) (simp add: assms(2))
  then show ?thesis
    using assms(1)
    by (simp add: poll_for_completion_def bind_def return_def update_job_found)
qed

lemma process_found:
  assumes "find (\<lambda>j. job_id j = uid) (db s) = Some job"
  shows "process_media_generation retries w uid s =
     try_except
       (bind (start_generation w uid job) (\<lambda>handle. poll_for_completion w uid handle (prompt job)))
       is_Exception (unexpected_error w uid)
       (s\<lparr>db := update_first uid (\<lambda>j. j\<lparr>status := PROCESSING, started_at := Some (utcnow w),
              retry_count := retries, updated_at := Some (utcnow w)\<rparr>) (db s)\<rparr>)"
  by (simp add: process_media_generation_def try_except_def generation_attempt_found[OF assms])

lemma process_missing:
  assumes "find (\<lambda>j. job_id j = uid) (db s) = None"
  shows "process_media_generation retries w uid s =
     (Inl (ValueError (''Job '' @ uid @ '' not found'')), s)"
  using assms
  by (simp add: process_media_generation_def try_except_def generation_attempt_missing
        unexpected_error_missing is_Exception_def)

lemma preserves_after_first_update:
  assumes "run_stable P"
  shows "preserves (on_job uid P)
     (try_except
       (bind (start_generation w uid job) (\<lambda>handle. poll_for_completion w uid handle p))
       is_Exception (unexpected_error w uid))"
  using assms
  by (intro preserves_try preserves_bind preserves_start_generation
        preserves_poll_for_completion preserves_unexpected_error)
     (auto simp: run_stable_def)

lemma process_keeps:
  assumes "run_stable P" and "find (\<lambda>j. job_id j = uid) (db s) = Some job"
    and "P (job\<lparr>status := PROCESSING, started_at := Some (utcnow w),
              retry_count := retries, updated_at := Some (utcnow w)\<rparr>)"
  shows "on_job uid P (snd (process_media_generation retries w uid s))"
proof -
  let ?s1 = "s\<lparr>db := update_first uid (\<lambda>j. j\<lparr>status := PROCESSING, started_at := Some (utcnow w),
              retry_count := retries, updated_at := Some (utcnow w)\<rparr>) (db s)\<rparr>"
  have "on_job uid P ?s1"
    using assms(2,3) by (simp add: on_job_def find_update_first)
  then show ?thesis
    using preserves_after_first_update[OF assms(1), of uid w job "prompt job"]
    by (simp add: process_found[OF assms(2)] preserves_def)
qed

lemma on_job_find:
  "on_job uid P s \<Longrightarrow> \<exists>j. find (\<lambda>j. job_id j = uid) (db s) = Some j \<and> P j"
  by (simp add: on_job_def split: option.splits)

lemmas run_defs =
  process_media_generation_def generation_attempt_def unexpected_error_def
  start_generation_def submit_generation_def poll_for_completion_def poll_once_def
  check_job_status_def download_result_def generate_image_def keyword_arguments_def
  load_params_def metadata_of_def input_data_of_def kwargs_get_def save_metadata_def
  get_job_by_id_def update_job_def record_call_def sleep_def
  bind_def return_def raise_def try_except_def is_Exception_def
  generate_metadata_path_def error_text_def

lemmas demo_defs = demo_world_def demo_storage_def demo_job_def demo_state_def create_job_def

lemma demo_first_run:
  "process_media_generation 0 demo_world ''j1'' demo_state =
     (Inr (Failed_result (Some ''out of memory'')),
      \<lparr>db = [demo_job\<lparr>status := FAILED, started_at := Some 1000, retry_count := 0,
               updated_at := Some 1000, external_job_id := Some ''ext-1'',
               error_message := Some ''Generation failed: out of memory'',
               completed_at := Some 1000\<rparr>],
       fs = demo_storage\<lparr>metadata_files := [''storage/metadata/j1.json'' \<mapsto>
               [(''prompt'', JStr ''a cat''), (''model_name'', JStr ''stable-diffusion''),
                (''external_job_id'', JStr ''ext-1''), (''created_at'', JStr ''T'')]]\<rparr>,
       trace = [CreatePrediction ''stable-diffusion'' (input_data_of ''a cat'' []),
                GetPrediction ''ext-1'']\<rparr>)"
  by (simp add: run_defs demo_defs max_attempts_def eval_nat_numeral)

section \<open>The status before a run is not read\<close>

lemma update_first_absent:
  "find (\<lambda>j. job_id j = uid) jobs = None \<Longrightarrow> update_first uid f jobs = jobs"
  by (induction jobs) (auto split: if_splits)

lemma submit_generation_status:
  "submit_generation w uid (job\<lparr>status := st\<rparr>) = submit_generation w uid job"
  by (simp add: submit_generation_def load_params_def metadata_of_def)

lemma start_generation_status:
  "start_generation w uid (job\<lparr>status := st\<rparr>) = start_generation w uid job"
  by (simp add: start_generation_def submit_generation_status split: option.splits)

lemma process_ignores_status:
  "process_media_generation retries w uid
     (s\<lparr>db := update_first uid (\<lambda>j. j\<lparr>status := st\<rparr>) (db s)\<rparr>) =
   process_media_generation retries w uid s"
proof (cases "find (\<lambda>j. job_id j = uid) (db s)")
  case None
  then show ?thesis by (simp add: update_first_absent)
next
  case (Some job)
  have found: "find (\<lambda>j. job_id j = uid)
      (db (s\<lparr>db := update_first uid (\<lambda>j. j\<lparr>status := st\<rparr>) (db s)\<rparr>)) = Some (job\<lparr>status := st\<rparr>)"
    using Some by (simp add: find_update_first)
  show ?thesis
    by (simp add: process_found[OF found] process_found[OF Some] update_first_twice
          start_generation_status)
qed

lemma process_after_cancel:
  "process_media_generation retries w uid (s\<lparr>db := snd (cancel_job uid (db s))\<rparr>) =
   process_media_generation retries w uid s"
proof (cases "find (\<lambda>j. job_id j = uid) (db s)")
  case None
  then show ?thesis by (simp add: cancel_job_def)
next
  case (Some job)
  show ?thesis
  proof (cases "status job \<in> {COMPLETED, FAILED, CANCELLED}")
    case True
    then show ?thesis using Some by (simp add: cancel_job_def)
  next
    case False
    then have "snd (cancel_job uid (db s)) = update_first uid (\<lambda>j. j\<lparr>status := CANCELLED\<rparr>) (db s)"
      using Some by (simp add: cancel_job_def)
    then show ?thesis by (simp add: process_ignores_status)
  qed
qed

section \<open>Calls of the poll phase\<close>

lemma preserves_calls_update_job: "preserves (no_new_submit before) (update_job w uid f)"
  by (simp add: preserves_def update_job_def no_new_submit_def split: option.splits)

lemma preserves_calls_record_call:
  "\<not> is_CreatePrediction c \<Longrightarrow> preserves (no_new_submit before) (record_call c)"
  by (auto simp: preserves_def record_call_def no_new_submit_def)

lemma preserves_calls_poll_once:
  "preserves (no_new_submit before) (poll_once w uid handle p attempt)"
  unfolding poll_once_def check_job_status_def download_result_def sleep_def Let_def
  by (intro preserves_try preserves_bind preserves_calls_record_call
        preserves_calls_update_job preserves_return preserves_raise)
     (auto intro!: preserves_try preserves_bind preserves_calls_record_call
        preserves_calls_update_job preserves_return preserves_raise
        split: sum.splits field.splits list.splits)

lemma preserves_calls_poll_loop:
  "preserves (no_new_submit before) (poll_loop w uid handle p attempt n)"
  by (induction n arbitrary: attempt)
     (auto intro!: preserves_bind preserves_return preserves_calls_poll_once split: option.splits)

lemma preserves_calls_poll_for_completion:
  "preserves (no_new_submit before) (poll_for_completion w uid handle p)"
  unfolding poll_for_completion_def
  by (auto intro!: preserves_bind preserves_return preserves_calls_poll_loop
        preserves_calls_update_job split: option.splits)

lemma preserves_calls_unexpected_error:
  "preserves (no_new_submit before) (unexpected_error w uid e)"
  unfolding unexpected_error_def
  by (intro preserves_bind preserves_try preserves_calls_update_job preserves_return
        preserves_raise)

lemma start_generation_resume:
  "external_job_id job = Some handle \<Longrightarrow> handle \<noteq> [] \<Longrightarrow>
   start_generation w uid job = return handle"
  by (simp add: start_generation_def)

section \<open>Runs of the examples\<close>

lemmas finished_defs = finished_job_def finished_state_def resumed_job_def resumed_state_def

lemma finished_run:
  "process_media_generation 0 demo_world ''j1'' finished_state =
     (Inr (Failed_result (Some ''out of memory'')),
      finished_state\<lparr>db := [finished_job\<lparr>status := FAILED, started_at := Some 1000,
               retry_count := 0, updated_at := Some 1000,
               error_message := Some ''Generation failed: out of memory'',
               completed_at := Some 1000\<rparr>],
       trace := [GetPrediction ''ext-1'']\<rparr>)"
  by (simp add: run_defs demo_defs finished_defs max_attempts_def eval_nat_numeral)

lemma start_generation_found:
  assumes "find (\<lambda>j. job_id j = uid) (db s) = Some j0"
    and "start_generation w uid job s = (r, s1)"
  shows "\<exists>j1. find (\<lambda>j. job_id j = uid) (db s1) = Some j1"
proof -
  have "on_job uid (\<lambda>_. True) s" using assms(1) by (simp add: on_job_def)
  then have "on_job uid (\<lambda>_. True) s1"
    using preservesD[OF preserves_start_generation _ assms(2)]
    by (simp add: run_stable_def outcome_stable_def)
  then show ?thesis by (auto dest: on_job_find)
qed

section \<open>Runs that raise, and runs that poll to the end\<close>

lemma poll_loop_skip:
  assumes "\<And>i s. i < k \<Longrightarrow>
     poll_once w uid handle p (attempt + i) s = (Inr None, s\<lparr>trace := trace s @ cs\<rparr>)"
  shows "poll_loop w uid handle p attempt (k + n) s =
     poll_loop w uid handle p (attempt + k) n (s\<lparr>trace := trace s @ concat (replicate k cs)\<rparr>)"
  using assms
proof (induction k arbitrary: attempt s)
  case 0
  then show ?case by simp
next
  case (Suc k)
  have first: "poll_once w uid handle p attempt s = (Inr None, s\<lparr>trace := trace s @ cs\<rparr>)"
    using Suc.prems[of 0 s] by simp
  have rest: "poll_loop w uid handle p (Suc attempt) (k + n) (s\<lparr>trace := trace s @ cs\<rparr>) =
     poll_loop w uid handle p (Suc attempt + k) n
       (s\<lparr>trace := trace s @ cs\<rparr>\<lparr>trace := trace (s\<lparr>trace := trace s @ cs\<rparr>) @ concat (replicate k cs)\<rparr>)"
  proof (rule Suc.IH)
    fix i s'
    assume "i < k"
    then show "poll_once w uid handle p (Suc attempt + i) s' = (Inr None, s'\<lparr>trace := trace s' @ cs\<rparr>)"
      using Suc.prems[of "Suc i" s'] by simp
  qed
  show ?case
    using first rest by (simp add: bind_def)
qed

lemma poll_once_api_error:
  assumes "find (\<lambda>j. job_id j = uid) (db s) = Some job"
    and "get_prediction w attempt handle = Inl (ReplicateAPIError m)"
  shows "poll_once w uid handle p attempt s =
     (Inl (ReplicateAPIError m),
      s\<lparr>trace := trace s @ [GetPrediction handle],
        db := update_first uid (\<lambda>j. j\<lparr>status := FAILED,
          error_message := Some (''API error: '' @ m),
          completed_at := Some (utcnow w), updated_at := Some (utcnow w)\<rparr>) (db s)\<rparr>)"
  using assms
  by (simp add: poll_once_def check_job_status_def bind_def try_except_def raise_def
        record_call_def update_job_found)

lemma poll_for_completion_api_error:
  assumes "find (\<lambda>j. job_id j = uid) (db s) = Some job"
    and "k < max_attempts"
    and "\<And>i s. i < k \<Longrightarrow>
       poll_once w uid handle p i s = (Inr None, s\<lparr>trace := trace s @ cs\<rparr>)"
    and "get_prediction w k handle = Inl (ReplicateAPIError m)"
  shows "poll_for_completion w uid handle p s =
     (Inl (ReplicateAPIError m),
      s\<lparr>trace := trace s @ concat (replicate k cs) @ [GetPrediction handle],
        db := update_first uid (\<lambda>j. j\<lparr>status := FAILED,
          error_message := Some (''API error: '' @ m),
          completed_at := Some (utcnow w), updated_at := Some (utcnow w)\<rparr>) (db s)\<rparr>)"
proof -
  obtain n where n: "max_attempts = k + Suc n"
    using assms(2) by (metis less_imp_Suc_add add_Suc_right)
  let ?s1 = "s\<lparr>trace := trace s @ concat (replicate k cs)\<rparr>"
  have skip: "poll_loop w uid handle p 0 (k + Suc n) s = poll_loop w uid handle p (0 + k) (Suc n) ?s1"
    by (rule poll_loop_skip) (simp add: assms(3))
  have found: "find (\<lambda>j. job_id j = uid) (db ?s1) = Some job"
    using assms(1) by simp
  have last: "poll_loop w uid handle p k (Suc n) ?s1 =
     (Inl (ReplicateAPIError m),
      ?s1\<lparr>trace := trace ?s1 @ [GetPrediction handle],
        db := update_first uid (\<lambda>j. j\<lparr>status := FAILED,
          error_message := Some (''API error: '' @ m),
          completed_at := Some (utcnow w), updated_at := Some (utcnow w)\<rparr>) (db ?s1)\<rparr>)"
    by (simp add: bind_def poll_once_api_error[OF found assms(4)])
  have loop: "poll_loop w uid handle p 0 max_attempts s =
     (Inl (ReplicateAPIError m),
      s\<lparr>trace := trace s @ concat (replicate k cs) @ [GetPrediction handle],
        db := update_first uid (\<lambda>j. j\<lparr>status := FAILED,
          error_message := Some (''API error: '' @ m),
          completed_at := Some (utcnow w), updated_at := Some (utcnow w)\<rparr>) (db s)\<rparr>)"
    unfolding n skip using last by simp
  show ?thesis
    by (simp add: poll_for_completion_def bind_def loop)
qed

lemma submit_generation_api_error:
  assumes "find (\<lambda>j. job_id j = uid) (db s) = Some j0"
    and "load_params w job = return (JObj kwargs)"
    and "\<not> list_ex (\<lambda>k. k \<in> {''self'', ''prompt'', ''model''}) (map fst kwargs)"
    and "create_prediction w (model_name job) (input_data_of (prompt job) kwargs)
           = Inl (ReplicateAPIError m)"
  shows "submit_generation w uid job s =
     (Inl (ReplicateAPIError m),
      s\<lparr>trace := trace s @ [CreatePrediction (model_name job) (input_data_of (prompt job) kwargs)],
        db := update_first uid (\<lambda>j. j\<lparr>status := FAILED,
          error_message := Some (''Failed to start generation: '' @ m),
          completed_at := Some (utcnow w), updated_at := Some (utcnow w)\<rparr>) (db s)\<rparr>)"
  using assms
  by (simp add: submit_generation_def keyword_arguments_def generate_image_def bind_def
        try_except_def raise_def return_def record_call_def update_job_found)

lemma start_generation_submits:
  "\<not> truthy (external_job_id job) \<Longrightarrow>
   start_generation w uid job = submit_generation w uid job"
  by (simp add: start_generation_def truthy_def split: option.splits)

lemma process_raises:
  assumes "find (\<lambda>j. job_id j = uid) (db s) = Some job"
    and "bind (start_generation w uid job) (\<lambda>handle. poll_for_completion w uid handle (prompt job))
           (s\<lparr>db := update_first uid (\<lambda>j. j\<lparr>status := PROCESSING,
                  started_at := Some (utcnow w), retry_count := retries,
                  updated_at := Some (utcnow w)\<rparr>) (db s)\<rparr>) = (Inl e, s1)"
    and "find (\<lambda>j. job_id j = uid) (db s1) = Some j1"
  shows "fst (process_media_generation retries w uid s) = Inl e
       \<and> find (\<lambda>j. job_id j = uid) (db (snd (process_media_generation retries w uid s)))
         = Some (j1\<lparr>status := FAILED,
                    error_message := Some (''Unexpected error: '' @ str_exn e),
                    completed_at := Some (utcnow w), updated_at := Some (utcnow w)\<rparr>)"
  using assms(3)
  by (simp add: process_found[OF assms(1)] try_except_def assms(2) is_Exception_def
        unexpected_error_found[OF assms(3)] find_update_first)

lemmas world_defs = waiting_world_def empty_output_world_def timeout_world_def flaky_world_def

lemma resumed_run_without_output:
  assumes "find (\<lambda>j. job_id j = uid) (db s) = Some job"
    and "external_job_id job = Some handle" and "handle \<noteq> []"
    and "\<forall>attempt < max_attempts. \<exists>result. get_prediction w attempt handle = Inr result
           \<and> p_status result = ''succeeded''
           \<and> (p_output result = Missing \<or> p_output result = Null \<or> p_output result = Value [])"
  shows "fst (process_media_generation retries w uid s)
           = Inr (Failed_result (Some ''Job timed out''))
       \<and> trace (snd (process_media_generation retries w uid s))
           = trace s @ replicate max_attempts (GetPrediction handle)
       \<and> find (\<lambda>j. job_id j = uid) (db (snd (process_media_generation retries w uid s)))
           = Some (job\<lparr>status := FAILED, started_at := Some (utcnow w), retry_count := retries,
                error_message := Some ''Job timed out after 5 minutes'',
                completed_at := Some (utcnow w), updated_at := Some (utcnow w)\<rparr>)"
proof -
  let ?s0 = "s\<lparr>db := update_first uid (\<lambda>j. j\<lparr>status := PROCESSING,
                  started_at := Some (utcnow w), retry_count := retries,
                  updated_at := Some (utcnow w)\<rparr>) (db s)\<rparr>"
  have f0: "find (\<lambda>j. job_id j = uid) (db ?s0) = Some (job\<lparr>status := PROCESSING,
                  started_at := Some (utcnow w), retry_count := retries,
                  updated_at := Some (utcnow w)\<rparr>)"
    using assms(1) by (simp add: find_update_first)
  have rounds: "\<And>i s. i < max_attempts \<Longrightarrow>
     poll_once w uid handle (prompt job) i s =
       (Inr None, s\<lparr>trace := trace s @ [GetPrediction handle]\<rparr>)"
    using assms(4) by (auto intro: poll_once_no_output)
  have "process_media_generation retries w uid s =
     (Inr (Failed_result (Some ''Job timed out'')),
      ?s0\<lparr>trace := trace ?s0 @ concat (replicate max_attempts [GetPrediction handle]),
          db := update_first uid (\<lambda>j. j\<lparr>status := FAILED,
            error_message := Some ''Job timed out after 5 minutes'',
            completed_at := Some (utcnow w), updated_at := Some (utcnow w)\<rparr>) (db ?s0)\<rparr>)"
    by (simp add: process_found[OF assms(1)] start_generation_resume[OF assms(2,3)]
          try_except_def poll_for_completion_timeout[OF f0 rounds])
  then show ?thesis
    using assms(1) by (simp add: find_update_first)
qed

section \<open>The sweep and the storage\<close>

lemma cleanup_loop_keeps_files: "fs (snd (cleanup_loop w jobs n s)) = fs s"
proof (induction jobs arbitrary: n s)
  case Nil
  then show ?case by (simp add: return_def)
next
  case (Cons job jobs)
  show ?case
    by (auto simp: bind_def try_except_def update_job_def return_def Cons.IH
          split: option.splits prod.splits sum.splits)
qed

lemma cleanup_keeps_files: "fs (snd (cleanup_old_files w days_old s)) = fs s"
  by (simp add: cleanup_old_files_def cleanup_loop_keeps_files)

lemma finished_sweep:
  "cleanup_old_files sweep_world 7 finished_state =
     (Inr 1, finished_state\<lparr>db := [finished_job\<lparr>file_path := None, result_url := None,
                                       updated_at := Some 1000000\<rparr>]\<rparr>)"
  by (simp add: cleanup_old_files_def is_old_job_def bind_def try_except_def return_def
        update_job_def finished_defs demo_defs sweep_world_def)

section \<open>The parameters of a job\<close>

lemma update_job_json: "update_job (w\<lparr>json_loads := f\<rparr>) = update_job w"
  by (intro ext) (simp add: update_job_def split: option.splits)

lemma poll_once_json: "poll_once (w\<lparr>json_loads := f\<rparr>) = poll_once w"
  by (intro ext)
     (simp add: poll_once_def check_job_status_def download_result_def update_job_json
        cong: field.case_cong list.case_cong sum.case_cong if_cong)

lemma poll_loop_json:
  "poll_loop (w\<lparr>json_loads := f\<rparr>) uid handle p attempt n = poll_loop w uid handle p attempt n"
  by (induction n arbitrary: attempt) (simp_all add: poll_once_json)

lemma poll_for_completion_json:
  "poll_for_completion (w\<lparr>json_loads := f\<rparr>) = poll_for_completion w"
  by (intro ext)
     (simp add: poll_for_completion_def poll_loop_json update_job_json cong: option.case_cong)

lemma unexpected_error_json: "unexpected_error (w\<lparr>json_loads := f\<rparr>) = unexpected_error w"
  by (intro ext) (simp add: unexpected_error_def update_job_json)

lemma submit_generation_json:
  assumes "load_params (w\<lparr>json_loads := f\<rparr>) job = load_params w job"
  shows "submit_generation (w\<lparr>json_loads := f\<rparr>) uid job = submit_generation w uid job"
  by (simp add: submit_generation_def assms generate_image_def metadata_of_def update_job_json
        cong: sum.case_cong)

lemma start_generation_json:
  assumes "load_params (w\<lparr>json_loads := f\<rparr>) job = load_params w job"
  shows "start_generation (w\<lparr>json_loads := f\<rparr>) uid job = start_generation w uid job"
  by (simp add: start_generation_def submit_generation_json[OF assms] split: option.splits)

lemma process_json:
  assumes "\<And>job. find (\<lambda>j. job_id j = uid) (db s) = Some job \<Longrightarrow>
             load_params (w\<lparr>json_loads := f\<rparr>) job = load_params w job"
  shows "process_media_generation retries (w\<lparr>json_loads := f\<rparr>) uid s =
         process_media_generation retries w uid s"
proof (cases "find (\<lambda>j. job_id j = uid) (db s)")
  case None
  then show ?thesis by (simp add: process_missing)
next
  case (Some job)
  show ?thesis
    by (simp add: process_found[OF Some] start_generation_json[OF assms[OF Some]]
          poll_for_completion_json unexpected_error_json)
qed

lemma preserves_trace_record_call: "preserves (trace_from before) (record_call c)"
  by (auto simp: preserves_def record_call_def trace_from_def)

lemma preserves_trace_update_job: "preserves (trace_from before) (update_job w uid f)"
  by (simp add: preserves_def update_job_def trace_from_def split: option.splits)

lemma preserves_trace_save_metadata:
  "preserves (trace_from before) (run_until_complete (save_metadata uid md))"
  by (simp add: preserves_def save_metadata_def trace_from_def split: option.splits)

lemma preserves_trace_poll_once:
  "preserves (trace_from before) (poll_once w uid handle p attempt)"
  unfolding poll_once_def check_job_status_def download_result_def sleep_def Let_def
  by (intro preserves_try preserves_bind preserves_trace_record_call
        preserves_trace_update_job preserves_return preserves_raise)
     (auto intro!: preserves_try preserves_bind preserves_trace_record_call
        preserves_trace_update_job preserves_return preserves_raise
        split: sum.splits field.splits list.splits)

lemma preserves_trace_poll_loop:
  "preserves (trace_from before) (poll_loop w uid handle p attempt n)"
  by (induction n arbitrary: attempt)
     (auto intro!: preserves_bind preserves_return preserves_trace_poll_once split: option.splits)

lemma preserves_trace_poll_for_completion:
  "preserves (trace_from before) (poll_for_completion w uid handle p)"
  unfolding poll_for_completion_def
  by (auto intro!: preserves_bind preserves_return preserves_trace_poll_loop
        preserves_trace_update_job split: option.splits)

lemma preserves_trace_unexpected_error:
  "preserves (trace_from before) (unexpected_error w uid e)"
  unfolding unexpected_error_def
  by (intro preserves_bind preserves_try preserves_trace_update_job preserves_return
        preserves_raise)

lemma preserves_trace_generate_image:
  "preserves (trace_from before) (generate_image w p model kwargs)"
  unfolding generate_image_def
  by (auto intro!: preserves_bind preserves_trace_record_call preserves_return preserves_raise
        split: sum.splits)

lemma preserves_trace_submit_generation:
  "preserves (trace_from before) (submit_generation w uid job)"
  unfolding submit_generation_def
  by (intro preserves_try preserves_bind preserves_load_params preserves_keyword_arguments
        preserves_trace_generate_image preserves_trace_update_job
        preserves_trace_save_metadata preserves_return preserves_raise)

text \<open>The first thing a submission with usable keyword arguments does is the call.\<close>

lemma generate_image_calls_first:
  "\<exists>r s'. generate_image w p model kwargs s = (r, s')
      \<and> trace s' = trace s @ [CreatePrediction model (input_data_of p kwargs)]
      \<and> db s' = db s \<and> fs s' = fs s"
  by (auto simp: generate_image_def bind_def record_call_def raise_def return_def
        split: sum.splits)

lemma bind_extends_trace:
  "trace_from before (snd (m s)) \<Longrightarrow> (\<And>x. preserves (trace_from before) (f x)) \<Longrightarrow>
   trace_from before (snd (bind m f s))"
  by (auto simp: bind_def preserves_def split: prod.splits sum.splits)

lemma try_except_extends_trace:
  "trace_from before (snd (m s)) \<Longrightarrow> (\<And>e. preserves (trace_from before) (h e)) \<Longrightarrow>
   trace_from before (snd (try_except m c h s))"
  by (auto simp: try_except_def preserves_def split: prod.splits sum.splits)

lemma load_params_invalid:
  "parameters job = Some text \<Longrightarrow> json_loads w text = Inl (JSONDecodeError msg) \<Longrightarrow>
   load_params w job = return (JObj [])"
  by (simp add: load_params_def)

lemma input_data_defaults:
  "input_data_of p [] =
     [(''prompt'', JStr p), (''width'', JInt 1024), (''height'', JInt 1024),
      (''num_outputs'', JInt 1), (''num_inference_steps'', JInt 4),
      (''guidance_scale'', JFloat (7 / 2))]"
  by (simp add: input_data_of_def kwargs_get_def)

section \<open>Submissions that return\<close>

text \<open>A submission that returns has stored the handle it returns; so has a start that
  found the handle on the job.\<close>

lemma ends_with_append: "ends_with m (prefix @ m)"
  by (simp add: ends_with_def)

lemma keyword_arguments_state: "keyword_arguments v s = (r, s') \<Longrightarrow> s' = s"
  by (auto simp: keyword_arguments_def return_def raise_def split: jval.splits if_splits)

lemma generate_image_returns:
  assumes "generate_image w p model kwargs s = (Inr external_id, s')"
  shows "db s' = db s"
  using assms generate_image_calls_first[of w p model kwargs s] by auto

lemma save_metadata_db:
  "run_until_complete (save_metadata uid md) s = (r, s') \<Longrightarrow> db s' = db s"
  by (auto simp: save_metadata_def split: option.splits)

lemma try_except_Inr_elim:
  assumes "try_except m c h s = (Inr y, s')"
    and "\<And>e s1. h e s1 \<noteq> (Inr y, s')"
  shows "m s = (Inr y, s')"
  using assms by (auto simp: try_except_def split: prod.splits sum.splits if_splits)

lemma submit_handler_raises:
  "bind (update_job w uid f) (\<lambda>_. raise e) s1 \<noteq> (Inr y, s')"
  by (auto simp: bind_def raise_def split: prod.splits sum.splits)

lemma submit_generation_returns:
  assumes "find (\<lambda>j. job_id j = uid) (db s) = Some j0"
    and "submit_generation w uid job s = (Inr handle, s1)"
  shows "\<exists>j1. find (\<lambda>j. job_id j = uid) (db s1) = Some j1 \<and> external_job_id j1 = Some handle"
proof -
  have body: "bind (load_params w job) (\<lambda>params.
        bind (keyword_arguments params) (\<lambda>kwargs.
        bind (generate_image w (prompt job) (model_name job) kwargs) (\<lambda>external_id.
        bind (update_job w uid (\<lambda>j. j\<lparr>external_job_id := Some external_id\<rparr>)) (\<lambda>_.
        bind (run_until_complete
                (save_metadata uid (metadata_of w job external_id kwargs))) (\<lambda>_.
        return external_id))))) s = (Inr handle, s1)"
    using assms(2) unfolding submit_generation_def
    by (rule try_except_Inr_elim) (rule submit_handler_raises)
  from body obtain params sa where l: "load_params w job s = (Inr params, sa)"
    and b1: "bind (keyword_arguments params) (\<lambda>kwargs.
        bind (generate_image w (prompt job) (model_name job) kwargs) (\<lambda>external_id.
        bind (update_job w uid (\<lambda>j. j\<lparr>external_job_id := Some external_id\<rparr>)) (\<lambda>_.
        bind (run_until_complete
                (save_metadata uid (metadata_of w job external_id kwargs))) (\<lambda>_.
        return external_id)))) sa = (Inr handle, s1)"
    by (rule bind_Inr_elim)
  from b1 obtain kwargs sb where k: "keyword_arguments params sa = (Inr kwargs, sb)"
    and b2: "bind (generate_image w (prompt job) (model_name job) kwargs) (\<lambda>external_id.
        bind (update_job w uid (\<lambda>j. j\<lparr>external_job_id := Some external_id\<rparr>)) (\<lambda>_.
        bind (run_until_complete
                (save_metadata uid (metadata_of w job external_id kwargs))) (\<lambda>_.
        return external_id))) sb = (Inr handle, s1)"
    by (rule bind_Inr_elim)
  from b2 obtain external_id sc
    where g: "generate_image w (prompt job) (model_name job) kwargs sb = (Inr external_id, sc)"
    and b3: "bind (update_job w uid (\<lambda>j. j\<lparr>external_job_id := Some external_id\<rparr>)) (\<lambda>_.
        bind (run_until_complete
                (save_metadata uid (metadata_of w job external_id kwargs))) (\<lambda>_.
        return external_id)) sc = (Inr handle, s1)"
    by (rule bind_Inr_elim)
  from b3 obtain x sd
    where u: "update_job w uid (\<lambda>j. j\<lparr>external_job_id := Some external_id\<rparr>) sc = (Inr x, sd)"
    and b4: "bind (run_until_complete
                (save_metadata uid (metadata_of w job external_id kwargs))) (\<lambda>_.
        return external_id) sd = (Inr handle, s1)"
    by (rule bind_Inr_elim)
  from b4 obtain y se
    where m: "run_until_complete
                (save_metadata uid (metadata_of w job external_id kwargs)) sd = (Inr y, se)"
    and b5: "return external_id se = (Inr handle, s1)"
    by (rule bind_Inr_elim)
  have "sa = s" and "sb = sa"
    using load_params_state[OF l] keyword_arguments_state[OF k] by simp_all
  then have "find (\<lambda>j. job_id j = uid) (db sc) = Some j0"
    using assms(1) generate_image_returns[OF g] by simp
  then have "find (\<lambda>j. job_id j = uid) (db sd)
      = Some (j0\<lparr>external_job_id := Some external_id, updated_at := Some (utcnow w)\<rparr>)"
    using u by (auto simp: update_job_found find_update_first)
  moreover have "db se = db sd" using save_metadata_db[OF m] .
  moreover have "handle = external_id" and "s1 = se"
    using b5 by (simp_all add: return_def)
  ultimately show ?thesis by simp
qed

lemma start_generation_returns:
  assumes "find (\<lambda>j. job_id j = uid) (db s) = Some j0"
    and "external_job_id j0 = external_job_id job"
    and "start_generation w uid job s = (Inr handle, s1)"
  shows "\<exists>j1. find (\<lambda>j. job_id j = uid) (db s1) = Some j1 \<and> external_job_id j1 = Some handle"
proof (cases "truthy (external_job_id job)")
  case True
  then obtain stored where st: "external_job_id job = Some stored" and ne: "stored \<noteq> []"
    by (auto simp: truthy_def split: option.splits)
  then have "handle = stored" and "s1 = s"
    using assms(3) by (simp_all add: start_generation_resume return_def)
  then show ?thesis using assms(1,2) st by simp
next
  case False
  then have "submit_generation w uid job s = (Inr handle, s1)"
    using assms(3) by (simp add: start_generation_submits)
  then show ?thesis using submit_generation_returns[OF assms(1)] by simp
qed

lemma raised_run_observed:
  assumes "fst run = Inl (ReplicateAPIError m)
       \<and> find (\<lambda>j. job_id j = uid) (db (snd run))
         = Some (j1\<lparr>status := FAILED,
                    error_message := Some (''Unexpected error: '' @ str_exn (ReplicateAPIError m)),
                    completed_at := Some t, updated_at := Some t\<rparr>)"
  shows "fst run = Inl (ReplicateAPIError m)
       \<and> (\<exists>j. find (\<lambda>j. job_id j = uid) (db (snd run)) = Some j
              \<and> status j = FAILED \<and> records_error m j \<and> completed_at j \<noteq> None
              \<and> external_job_id j = external_job_id j1)"
  using assms ends_with_append[of m "''Unexpected error: ''"]
  by (simp add: records_error_def)

section \<open>Result fields, and undecodable parameters\<close>

text \<open>No update a run makes on its way to a failure writes a result field.\<close>

lemma result_fields_stable:
  "attempt_stable (\<lambda>j. result_url j = a \<and> file_path j = b \<and> file_size j = c)"
  by (simp add: attempt_stable_def run_stable_def outcome_stable_def)

text \<open>The runs of the two example jobs with undecodable \<^verbatim>\<open>parameters\<close>.\<close>

lemma deep_json_run:
  "process_media_generation 0 deep_json_world ''j1'' deep_json_state =
     (Inl (RecursionError
         ''maximum recursion depth exceeded while decoding a JSON array from a unicode string''),
      deep_json_state\<lparr>db := [deep_json_job\<lparr>status := FAILED, started_at := Some 1000,
         retry_count := 0, updated_at := Some 1000,
         error_message := Some (''Unexpected error: '' @
           ''maximum recursion depth exceeded while decoding a JSON array from a unicode string''),
         completed_at := Some 1000\<rparr>]\<rparr>)"
  by (simp add: run_defs demo_defs deep_json_job_def deep_json_state_def deep_json_world_def)

lemma bad_json_run:
  "fst (process_media_generation 0 demo_world ''j1'' bad_json_state)
     = Inr (Failed_result (Some ''out of memory''))
   \<and> db (snd (process_media_generation 0 demo_world ''j1'' bad_json_state))
     = [bad_json_job\<lparr>status := FAILED, started_at := Some 1000, retry_count := 0,
               updated_at := Some 1000, external_job_id := Some ''ext-1'',
               error_message := Some ''Generation failed: out of memory'',
               completed_at := Some 1000\<rparr>]"
  by (simp add: run_defs demo_defs bad_json_job_def bad_json_state_def
        max_attempts_def eval_nat_numeral)

section \<open>The claims\<close>

text \<open>
  Claim C5, as the code has it. A run of the task on a job that exists leaves
  \<^verbatim>\<open>retry_count\<close> equal to \<^verbatim>\<open>self.request.retries\<close>, the retry number the invoking layer
  passed to this run: the first update of the run assigns it and no later update of the
  run touches it. It is assigned, not incremented, so the first run (retry number 0)
  leaves 0, whatever the job's state and count were before.
\<close>

theorem retry_count_is_request_retries:
  assumes "find (\<lambda>j. job_id j = uid) (db s) = Some job"
  shows "map_option retry_count
           (find (\<lambda>j. job_id j = uid) (db (snd (process_media_generation retries w uid s))))
         = Some retries"
proof -
  have "run_stable (\<lambda>j. retry_count j = retries)"
    by (simp add: run_stable_def outcome_stable_def)
  then have "on_job uid (\<lambda>j. retry_count j = retries)
               (snd (process_media_generation retries w uid s))"
    using assms by (rule process_keeps) simp
  then show ?thesis
    by (auto dest: on_job_find)
qed

theorem retry_count_is_request_retries_witness:
  "find (\<lambda>j. job_id j = ''j1'') (db demo_state) = Some demo_job
   \<and> map_option retry_count
        (find (\<lambda>j. job_id j = ''j1'') (db (snd (process_media_generation 3 demo_world ''j1'' demo_state))))
      = Some 3"
proof -
  have h: "find (\<lambda>j. job_id j = ''j1'') (db demo_state) = Some demo_job"
    by (simp add: demo_defs)
  show ?thesis
    using h retry_count_is_request_retries[OF h, of 3 demo_world] by simp
qed

text \<open>
  Claim C5 as stated fails: after the first run on a newly created job, which that run
  finds \<^verbatim>\<open>PENDING\<close>, the count is 0, where the claim says 1.
\<close>

theorem retry_count_counterexample:
  "map retry_count (db (snd (process_media_generation 0 demo_world ''j1'' demo_state))) = [0]"
  by (simp add: demo_first_run demo_job_def create_job_def)

text \<open>
  Claim C1, as the code has it. The task has no check of the job's status: it never
  reads it, and its first update sets it to \<^verbatim>\<open>PROCESSING\<close>. So a run on a job whose status
  is terminal is the run on the same job in status \<^verbatim>\<open>PENDING\<close>: the same result or
  exception, the same calls to the service, the same final table and storage. It is not
  a no-op, and the terminal status is overwritten.
\<close>

theorem advance_ignores_prior_status:
  "process_media_generation retries w uid
     (s\<lparr>db := update_first uid (\<lambda>j. j\<lparr>status := st\<rparr>) (db s)\<rparr>) =
   process_media_generation retries w uid
     (s\<lparr>db := update_first uid (\<lambda>j. j\<lparr>status := PENDING\<rparr>) (db s)\<rparr>)"
  by (simp add: process_ignores_status)

theorem advance_ignores_prior_status_witness:
  "process_media_generation 0 demo_world ''j1'' finished_state =
   process_media_generation 0 demo_world ''j1''
     (finished_state\<lparr>db := [finished_job\<lparr>status := PENDING\<rparr>]\<rparr>)"
  using advance_ignores_prior_status[where retries = 0 and w = demo_world and uid = "''j1''"
      and s = finished_state and st = COMPLETED]
  by (simp add: finished_defs demo_defs)

text \<open>
  Claim C1 as stated fails: a run on a \<^verbatim>\<open>COMPLETED\<close> job polls the service once, returns
  a failure and leaves the job \<^verbatim>\<open>FAILED\<close>.
\<close>

theorem terminal_job_counterexample:
  "status finished_job = COMPLETED
   \<and> fst (process_media_generation 0 demo_world ''j1'' finished_state)
       = Inr (Failed_result (Some ''out of memory''))
   \<and> trace (snd (process_media_generation 0 demo_world ''j1'' finished_state))
       = [GetPrediction ''ext-1'']
   \<and> map status (db (snd (process_media_generation 0 demo_world ''j1'' finished_state)))
       = [FAILED]"
  by (simp add: finished_run) (simp add: finished_defs demo_defs)

text \<open>
  Claim C2. When the job's \<^verbatim>\<open>external_job_id\<close> is a non-empty string, a run of the task
  adds no \<^verbatim>\<open>create_prediction\<close> call to the calls made before it, and the handle stored
  after the run, however it ends, is the one stored before.
\<close>

theorem resume_never_resubmits:
  assumes "find (\<lambda>j. job_id j = uid) (db s) = Some job"
    and "external_job_id job = Some handle" and "handle \<noteq> []"
  shows "(\<exists>calls. trace (snd (process_media_generation retries w uid s)) = trace s @ calls
            \<and> \<not> list_ex is_CreatePrediction calls)
       \<and> map_option external_job_id
           (find (\<lambda>j. job_id j = uid) (db (snd (process_media_generation retries w uid s))))
         = Some (Some handle)"
proof -
  let ?s1 = "s\<lparr>db := update_first uid (\<lambda>j. j\<lparr>status := PROCESSING, started_at := Some (utcnow w),
              retry_count := retries, updated_at := Some (utcnow w)\<rparr>) (db s)\<rparr>"
  have run: "process_media_generation retries w uid s =
     try_except (poll_for_completion w uid handle (prompt job)) is_Exception
       (unexpected_error w uid) ?s1"
    by (simp add: process_found[OF assms(1)] start_generation_resume[OF assms(2,3)])
  have "no_new_submit (trace s) ?s1"
    by (simp add: no_new_submit_def)
  moreover have "preserves (no_new_submit (trace s))
     (try_except (poll_for_completion w uid handle (prompt job)) is_Exception
        (unexpected_error w uid))"
    by (intro preserves_try preserves_calls_poll_for_completion preserves_calls_unexpected_error)
  ultimately have submits:
    "no_new_submit (trace s) (snd (process_media_generation retries w uid s))"
    by (simp add: run preserves_def)
  moreover have "on_job uid (\<lambda>j. external_job_id j = Some handle) ?s1"
    using assms(1,2) by (simp add: on_job_def find_update_first)
  moreover have "preserves (on_job uid (\<lambda>j. external_job_id j = Some handle))
     (try_except (poll_for_completion w uid handle (prompt job)) is_Exception
        (unexpected_error w uid))"
    by (intro preserves_try preserves_poll_for_completion preserves_unexpected_error)
       (simp_all add: outcome_stable_def)
  ultimately have "on_job uid (\<lambda>j. external_job_id j = Some handle)
     (snd (process_media_generation retries w uid s))"
    by (simp add: run preserves_def)
  with submits show ?thesis
    by (auto simp: no_new_submit_def dest: on_job_find)
qed

theorem resume_never_resubmits_witness:
  "find (\<lambda>j. job_id j = ''j1'') (db resumed_state) = Some resumed_job
   \<and> external_job_id resumed_job = Some ''ext-1''
   \<and> \<not> list_ex is_CreatePrediction
         (trace (snd (process_media_generation 1 demo_world ''j1'' resumed_state)))
   \<and> map_option external_job_id
        (find (\<lambda>j. job_id j = ''j1'')
           (db (snd (process_media_generation 1 demo_world ''j1'' resumed_state))))
      = Some (Some ''ext-1'')"
proof -
  have f: "find (\<lambda>j. job_id j = ''j1'') (db resumed_state) = Some resumed_job"
    and h: "external_job_id resumed_job = Some ''ext-1''"
    and t: "trace resumed_state = []"
    by (simp_all add: finished_defs demo_defs)
  have n: "''ext-1'' \<noteq> []" by simp
  show ?thesis
    using f h resume_never_resubmits[OF f h n, of 1 demo_world] by (auto simp: t)
qed

text \<open>
  Claim C8, as the code has it. For a job that exists, \<^verbatim>\<open>cancel_job\<close> on a terminal status
  is refused with HTTP 400 and leaves the table as it is; on \<^verbatim>\<open>PENDING\<close> or \<^verbatim>\<open>PROCESSING\<close>
  it sets the status to \<^verbatim>\<open>CANCELLED\<close>. The task does not look at the cancellation: a run
  after \<^verbatim>\<open>cancel_job\<close> is the run there would have been without it.
\<close>

theorem cancel_job_then_advance:
  assumes "find (\<lambda>j. job_id j = uid) (db s) = Some job"
  shows "(if status job \<in> {COMPLETED, FAILED, CANCELLED}
          then cancel_job uid (db s) = (Inl (HTTP_400_BAD_REQUEST (status job)), db s)
          else cancel_job uid (db s) =
                 (Inr (''Job '' @ uid @ '' cancelled successfully''),
                  update_first uid (\<lambda>j. j\<lparr>status := CANCELLED\<rparr>) (db s))
               \<and> find (\<lambda>j. job_id j = uid) (snd (cancel_job uid (db s)))
                   = Some (job\<lparr>status := CANCELLED\<rparr>))
       \<and> process_media_generation retries w uid (s\<lparr>db := snd (cancel_job uid (db s))\<rparr>) =
           process_media_generation retries w uid s"
proof (rule conjI)
  show "if status job \<in> {COMPLETED, FAILED, CANCELLED}
        then cancel_job uid (db s) = (Inl (HTTP_400_BAD_REQUEST (status job)), db s)
        else cancel_job uid (db s) =
               (Inr (''Job '' @ uid @ '' cancelled successfully''),
                update_first uid (\<lambda>j. j\<lparr>status := CANCELLED\<rparr>) (db s))
             \<and> find (\<lambda>j. job_id j = uid) (snd (cancel_job uid (db s)))
                 = Some (job\<lparr>status := CANCELLED\<rparr>)"
    using assms by (simp add: cancel_job_def find_update_first)
  show "process_media_generation retries w uid (s\<lparr>db := snd (cancel_job uid (db s))\<rparr>) =
        process_media_generation retries w uid s"
    by (rule process_after_cancel)
qed

theorem cancel_job_then_advance_witness:
  "cancel_job ''j1'' (db finished_state) = (Inl (HTTP_400_BAD_REQUEST COMPLETED), db finished_state)
   \<and> find (\<lambda>j. job_id j = ''j1'') (snd (cancel_job ''j1'' (db demo_state)))
       = Some (demo_job\<lparr>status := CANCELLED\<rparr>)
   \<and> process_media_generation 0 demo_world ''j1''
        (demo_state\<lparr>db := snd (cancel_job ''j1'' (db demo_state))\<rparr>) =
      process_media_generation 0 demo_world ''j1'' demo_state"
proof -
  have f: "find (\<lambda>j. job_id j = ''j1'') (db finished_state) = Some finished_job"
    by (simp add: finished_defs demo_defs)
  have d: "find (\<lambda>j. job_id j = ''j1'') (db demo_state) = Some demo_job"
    by (simp add: demo_defs)
  have sf: "status finished_job \<in> {COMPLETED, FAILED, CANCELLED}"
    and sc: "status finished_job = COMPLETED"
    and sd: "\<not> status demo_job \<in> {COMPLETED, FAILED, CANCELLED}"
    by (simp_all add: finished_defs demo_defs)
  have "cancel_job ''j1'' (db finished_state)
          = (Inl (HTTP_400_BAD_REQUEST (status finished_job)), db finished_state)"
    using cancel_job_then_advance[OF f, of 0 demo_world] sf by simp
  then have one: "cancel_job ''j1'' (db finished_state)
          = (Inl (HTTP_400_BAD_REQUEST COMPLETED), db finished_state)"
    by (simp only: sc)
  note two = cancel_job_then_advance[OF d, of 0 demo_world, unfolded if_not_P[OF sd]]
  from one two show ?thesis
    by (elim conjE) (intro conjI; assumption)
qed

text \<open>
  Claim C8 as stated fails in its last part: a run on the job just cancelled submits
  it, polls the service, and leaves it \<^verbatim>\<open>FAILED\<close>, not \<^verbatim>\<open>CANCELLED\<close>.
\<close>

theorem cancelled_job_counterexample:
  "map status (snd (cancel_job ''j1'' (db demo_state))) = [CANCELLED]
   \<and> trace (snd (process_media_generation 0 demo_world ''j1''
        (demo_state\<lparr>db := snd (cancel_job ''j1'' (db demo_state))\<rparr>)))
     = [CreatePrediction ''stable-diffusion'' (input_data_of ''a cat'' []), GetPrediction ''ext-1'']
   \<and> map status (db (snd (process_media_generation 0 demo_world ''j1''
        (demo_state\<lparr>db := snd (cancel_job ''j1'' (db demo_state))\<rparr>))))
     = [FAILED]"
  by (simp add: process_after_cancel demo_first_run)
     (simp add: cancel_job_def demo_defs)

text \<open>
  Claim C6. Let step 1 of a run hand the poll loop the handle \<open>handle\<close>, stored by an
  earlier run or submitted by this one, and let every poll of that handle report a
  status that is neither \<^verbatim>\<open>succeeded\<close> nor \<^verbatim>\<open>failed\<close>. Then the run polls exactly
  \<^verbatim>\<open>max_attempts\<close> = 30 times, sleeping 10 seconds after each poll, sets the job to
  \<^verbatim>\<open>FAILED\<close> with the message \<^verbatim>\<open>Job timed out after 5 minutes\<close>, and returns the failure
  \<^verbatim>\<open>Job timed out\<close>; there is no poll beyond the thirtieth.
\<close>

theorem poll_timeout_after_max_attempts:
  assumes "find (\<lambda>j. job_id j = uid) (db s) = Some job"
    and "start_generation w uid job
           (s\<lparr>db := update_first uid (\<lambda>j. j\<lparr>status := PROCESSING,
                  started_at := Some (utcnow w), retry_count := retries,
                  updated_at := Some (utcnow w)\<rparr>) (db s)\<rparr>) = (Inr handle, s1)"
    and "\<forall>attempt < max_attempts. \<exists>result. get_prediction w attempt handle = Inr result
           \<and> p_status result \<noteq> ''succeeded'' \<and> p_status result \<noteq> ''failed''"
  shows "max_attempts = 30
       \<and> fst (process_media_generation retries w uid s) = Inr (Failed_result (Some ''Job timed out''))
       \<and> trace (snd (process_media_generation retries w uid s))
           = trace s1 @ concat (replicate max_attempts [GetPrediction handle, Sleep 10])
       \<and> map_option status
           (find (\<lambda>j. job_id j = uid) (db (snd (process_media_generation retries w uid s))))
           = Some FAILED
       \<and> map_option error_message
           (find (\<lambda>j. job_id j = uid) (db (snd (process_media_generation retries w uid s))))
           = Some (Some ''Job timed out after 5 minutes'')"
proof -
  let ?s0 = "s\<lparr>db := update_first uid (\<lambda>j. j\<lparr>status := PROCESSING,
                  started_at := Some (utcnow w), retry_count := retries,
                  updated_at := Some (utcnow w)\<rparr>) (db s)\<rparr>"
  have "find (\<lambda>j. job_id j = uid) (db ?s0) \<noteq> None"
    using assms(1) by (simp add: find_update_first)
  then obtain j1 where j1: "find (\<lambda>j. job_id j = uid) (db s1) = Some j1"
    using start_generation_found[OF _ assms(2)] by auto
  have rounds: "\<And>i s. i < max_attempts \<Longrightarrow>
     poll_once w uid handle (prompt job) i s =
       (Inr None, s\<lparr>trace := trace s @ [GetPrediction handle, Sleep 10]\<rparr>)"
    using assms(3) by (auto intro: poll_once_in_progress)
  have "process_media_generation retries w uid s =
     (Inr (Failed_result (Some ''Job timed out'')),
      s1\<lparr>trace := trace s1 @ concat (replicate max_attempts [GetPrediction handle, Sleep 10]),
         db := update_first uid (\<lambda>j. j\<lparr>status := FAILED,
           error_message := Some ''Job timed out after 5 minutes'',
           completed_at := Some (utcnow w), updated_at := Some (utcnow w)\<rparr>) (db s1)\<rparr>)"
    by (simp add: process_found[OF assms(1)] try_except_def bind_def assms(2)
          poll_for_completion_timeout[OF j1 rounds])
  then show ?thesis
    using j1 by (simp add: find_update_first max_attempts_def)
qed

theorem poll_timeout_after_max_attempts_witness:
  "fst (process_media_generation 1 waiting_world ''j1'' resumed_state)
     = Inr (Failed_result (Some ''Job timed out''))
   \<and> trace (snd (process_media_generation 1 waiting_world ''j1'' resumed_state))
     = concat (replicate max_attempts [GetPrediction ''ext-1'', Sleep 10])
   \<and> map_option status (find (\<lambda>j. job_id j = ''j1'')
        (db (snd (process_media_generation 1 waiting_world ''j1'' resumed_state)))) = Some FAILED
   \<and> trace (snd (process_media_generation 0 waiting_world ''j1'' demo_state))
     = [CreatePrediction ''stable-diffusion'' (input_data_of ''a cat'' [])]
       @ concat (replicate max_attempts [GetPrediction ''ext-1'', Sleep 10])
   \<and> map_option error_message (find (\<lambda>j. job_id j = ''j1'')
        (db (snd (process_media_generation 0 waiting_world ''j1'' demo_state))))
     = Some (Some ''Job timed out after 5 minutes'')"
proof -
  have polls: "\<forall>attempt < max_attempts. \<exists>result.
      get_prediction waiting_world attempt ''ext-1'' = Inr result
      \<and> p_status result \<noteq> ''succeeded'' \<and> p_status result \<noteq> ''failed''"
    by (simp add: waiting_world_def demo_world_def)
  have r: "find (\<lambda>j. job_id j = ''j1'') (db resumed_state) = Some resumed_job"
    by (simp add: finished_defs demo_defs)
  have rs: "start_generation waiting_world ''j1'' resumed_job
      (resumed_state\<lparr>db := update_first ''j1'' (\<lambda>j. j\<lparr>status := PROCESSING,
         started_at := Some (utcnow waiting_world), retry_count := 1,
         updated_at := Some (utcnow waiting_world)\<rparr>) (db resumed_state)\<rparr>)
     = (Inr ''ext-1'', resumed_state\<lparr>db := update_first ''j1'' (\<lambda>j. j\<lparr>status := PROCESSING,
         started_at := Some (utcnow waiting_world), retry_count := 1,
         updated_at := Some (utcnow waiting_world)\<rparr>) (db resumed_state)\<rparr>)"
    by (simp add: start_generation_def return_def finished_defs demo_defs)
  have d: "find (\<lambda>j. job_id j = ''j1'') (db demo_state) = Some demo_job"
    by (simp add: demo_defs)
  have ds: "start_generation waiting_world ''j1'' demo_job
      (demo_state\<lparr>db := update_first ''j1'' (\<lambda>j. j\<lparr>status := PROCESSING,
         started_at := Some (utcnow waiting_world), retry_count := 0,
         updated_at := Some (utcnow waiting_world)\<rparr>) (db demo_state)\<rparr>)
     = (Inr ''ext-1'',
        \<lparr>db = [demo_job\<lparr>status := PROCESSING, started_at := Some 1000, retry_count := 0,
                 updated_at := Some 1000, external_job_id := Some ''ext-1''\<rparr>],
         fs = demo_storage\<lparr>metadata_files := [''storage/metadata/j1.json'' \<mapsto>
               [(''prompt'', JStr ''a cat''), (''model_name'', JStr ''stable-diffusion''),
                (''external_job_id'', JStr ''ext-1''), (''created_at'', JStr ''T'')]]\<rparr>,
         trace = [CreatePrediction ''stable-diffusion'' (input_data_of ''a cat'' [])]\<rparr>)"
    by (simp add: run_defs demo_defs waiting_world_def)
  have t0: "trace (resumed_state\<lparr>db := update_first ''j1'' (\<lambda>j. j\<lparr>status := PROCESSING,
         started_at := Some (utcnow waiting_world), retry_count := 1,
         updated_at := Some (utcnow waiting_world)\<rparr>) (db resumed_state)\<rparr>) = []"
    by (simp add: resumed_state_def)
  note a = poll_timeout_after_max_attempts[OF r rs polls, unfolded t0 append_Nil]
  note b = poll_timeout_after_max_attempts[OF d ds polls, unfolded state.simps]
  from a b show ?thesis
    by (elim conjE) (intro conjI; assumption)
qed

text \<open>
  Claim C7 does not hold of the code. A prediction that is \<^verbatim>\<open>succeeded\<close> with an empty
  output list takes no branch at lines 144 to 193: the run polls it again at once,
  thirty times without a sleep, and then fails the job as timed out; no message
  mentions the missing output.
\<close>

theorem succeeded_without_output_is_polled_again:
  "fst (process_media_generation 1 empty_output_world ''j1'' resumed_state)
     = Inr (Failed_result (Some ''Job timed out''))
   \<and> trace (snd (process_media_generation 1 empty_output_world ''j1'' resumed_state))
     = replicate 30 (GetPrediction ''ext-1'')
   \<and> map_option error_message (find (\<lambda>j. job_id j = ''j1'')
        (db (snd (process_media_generation 1 empty_output_world ''j1'' resumed_state))))
     = Some (Some ''Job timed out after 5 minutes'')"
proof -
  have r: "find (\<lambda>j. job_id j = ''j1'') (db resumed_state) = Some resumed_job"
    and h: "external_job_id resumed_job = Some ''ext-1''"
    and t: "trace resumed_state = []"
    by (simp_all add: finished_defs demo_defs)
  have n: "''ext-1'' \<noteq> []" by simp
  have polls: "\<forall>attempt < max_attempts. \<exists>result.
      get_prediction empty_output_world attempt ''ext-1'' = Inr result
      \<and> p_status result = ''succeeded''
      \<and> (p_output result = Missing \<or> p_output result = Null \<or> p_output result = Value [])"
    by (simp add: world_defs demo_world_def)
  show ?thesis
    using resumed_run_without_output[OF r h n polls, of 1]
    by (simp add: t max_attempts_def)
qed

text \<open>
  Claim C9 does not hold of the code. The sweep calls \<^verbatim>\<open>delete_file\<close>, an \<^verbatim>\<open>async def\<close>
  method, without awaiting it: the file stays in storage, the coroutine object counts as
  true, and the sweep reports one deleted file and clears \<^verbatim>\<open>file_path\<close> and \<^verbatim>\<open>result_url\<close>
  of the job, which stays \<^verbatim>\<open>COMPLETED\<close>. A second sweep finds no job and reports 0. The
  body of \<^verbatim>\<open>delete_file\<close>, when it is run, does remove the file and answers \<^verbatim>\<open>True\<close>, and
  answers \<^verbatim>\<open>False\<close> for a file that is not there.
\<close>

theorem sweep_leaves_artifact_in_storage:
  "files (fs finished_state) ''storage/media/j1.png'' = Some ''PNG''
   \<and> fst (cleanup_old_files sweep_world 7 finished_state) = Inr 1
   \<and> files (fs (snd (cleanup_old_files sweep_world 7 finished_state))) ''storage/media/j1.png''
       = Some ''PNG''
   \<and> map file_path (db (snd (cleanup_old_files sweep_world 7 finished_state))) = [None]
   \<and> map result_url (db (snd (cleanup_old_files sweep_world 7 finished_state))) = [None]
   \<and> map status (db (snd (cleanup_old_files sweep_world 7 finished_state))) = [COMPLETED]
   \<and> fst (cleanup_old_files sweep_world 7 (snd (cleanup_old_files sweep_world 7 finished_state)))
       = Inr 0
   \<and> fst (run_until_complete (delete_file ''j1'' ''png'') finished_state) = Inr True
   \<and> files (fs (snd (run_until_complete (delete_file ''j1'' ''png'') finished_state)))
        ''storage/media/j1.png'' = None
   \<and> fst (run_until_complete (delete_file ''j1'' ''png'') demo_state) = Inr False"
  by (simp add: finished_sweep)
     (simp add: cleanup_old_files_def is_old_job_def return_def delete_file_def
        generate_file_path_def finished_defs demo_defs)

text \<open>
  Claim C3, as the code has it. The code does not sort failures of the Replicate client
  into retryable and fatal: every \<^verbatim>\<open>ReplicateAPIError\<close> with text \<open>m\<close>, a timeout or network
  error included, is handled alike. When the submission raises it, the run raises the same
  exception to the invoking layer and leaves the job \<^verbatim>\<open>FAILED\<close>, with \<^verbatim>\<open>completed_at\<close> set,
  an error message that ends with \<open>m\<close>, and the handle as it was (empty). When a poll raises
  it, after the run has obtained the handle (stored by an earlier run or returned by this
  run's own submission) and after \<open>k\<close> polls that found the prediction in progress, the run
  raises the same exception and leaves the job \<^verbatim>\<open>FAILED\<close>, with \<^verbatim>\<open>completed_at\<close> set, an error
  message that ends with \<open>m\<close>, and that handle stored on the job.
\<close>

theorem api_error_marks_failed_and_reraises:
  assumes "find (\<lambda>j. job_id j = uid) (db s) = Some job"
  shows "(\<not> truthy (external_job_id job)
          \<and> load_params w job = return (JObj kwargs)
          \<and> \<not> list_ex (\<lambda>k. k \<in> {''self'', ''prompt'', ''model''}) (map fst kwargs)
          \<and> create_prediction w (model_name job) (input_data_of (prompt job) kwargs)
               = Inl (ReplicateAPIError m)
         \<longrightarrow> fst (process_media_generation retries w uid s) = Inl (ReplicateAPIError m)
             \<and> (\<exists>j. find (\<lambda>j. job_id j = uid)
                         (db (snd (process_media_generation retries w uid s))) = Some j
                    \<and> status j = FAILED \<and> records_error m j \<and> completed_at j \<noteq> None
                    \<and> external_job_id j = external_job_id job))
       \<and> (start_generation w uid job
             (s\<lparr>db := update_first uid (\<lambda>j. j\<lparr>status := PROCESSING,
                    started_at := Some (utcnow w), retry_count := retries,
                    updated_at := Some (utcnow w)\<rparr>) (db s)\<rparr>) = (Inr handle, s1)
          \<and> k < max_attempts
          \<and> (\<forall>i < k. \<exists>result. get_prediction w i handle = Inr result
                 \<and> p_status result \<noteq> ''succeeded'' \<and> p_status result \<noteq> ''failed'')
          \<and> get_prediction w k handle = Inl (ReplicateAPIError m)
         \<longrightarrow> fst (process_media_generation retries w uid s) = Inl (ReplicateAPIError m)
             \<and> (\<exists>j. find (\<lambda>j. job_id j = uid)
                         (db (snd (process_media_generation retries w uid s))) = Some j
                    \<and> status j = FAILED \<and> records_error m j \<and> completed_at j \<noteq> None
                    \<and> external_job_id j = Some handle))"
proof (intro conjI impI)
  let ?s0 = "s\<lparr>db := update_first uid (\<lambda>j. j\<lparr>status := PROCESSING,
                  started_at := Some (utcnow w), retry_count := retries,
                  updated_at := Some (utcnow w)\<rparr>) (db s)\<rparr>"
  let ?j0 = "job\<lparr>status := PROCESSING, started_at := Some (utcnow w),
                 retry_count := retries, updated_at := Some (utcnow w)\<rparr>"
  have f0: "find (\<lambda>j. job_id j = uid) (db ?s0) = Some ?j0"
    using assms(1) by (simp add: find_update_first)
  {
    assume a: "\<not> truthy (external_job_id job)
          \<and> load_params w job = return (JObj kwargs)
          \<and> \<not> list_ex (\<lambda>k. k \<in> {''self'', ''prompt'', ''model''}) (map fst kwargs)
          \<and> create_prediction w (model_name job) (input_data_of (prompt job) kwargs)
               = Inl (ReplicateAPIError m)"
    let ?s1 = "?s0\<lparr>trace := trace ?s0 @ [CreatePrediction (model_name job) (input_data_of (prompt job) kwargs)],
          db := update_first uid (\<lambda>j. j\<lparr>status := FAILED,
            error_message := Some (''Failed to start generation: '' @ m),
            completed_at := Some (utcnow w), updated_at := Some (utcnow w)\<rparr>) (db ?s0)\<rparr>"
    have "start_generation w uid job = submit_generation w uid job"
      using a by (simp add: start_generation_submits)
    then have sub: "start_generation w uid job ?s0 = (Inl (ReplicateAPIError m), ?s1)"
      using a submit_generation_api_error[OF f0, of w job kwargs m] by simp
    have tail: "bind (start_generation w uid job)
         (\<lambda>handle. poll_for_completion w uid handle (prompt job)) ?s0 =
       (Inl (ReplicateAPIError m), ?s1)"
      by (simp add: bind_def sub)
    have f1: "find (\<lambda>j. job_id j = uid) (db ?s1)
       = Some (?j0\<lparr>status := FAILED,
            error_message := Some (''Failed to start generation: '' @ m),
            completed_at := Some (utcnow w), updated_at := Some (utcnow w)\<rparr>)"
      using assms(1) by (simp add: find_update_first)
    have "fst (process_media_generation retries w uid s) = Inl (ReplicateAPIError m)
       \<and> (\<exists>j. find (\<lambda>j. job_id j = uid)
                   (db (snd (process_media_generation retries w uid s))) = Some j
              \<and> status j = FAILED \<and> records_error m j \<and> completed_at j \<noteq> None
              \<and> external_job_id j = external_job_id (?j0\<lparr>status := FAILED,
                   error_message := Some (''Failed to start generation: '' @ m),
                   completed_at := Some (utcnow w), updated_at := Some (utcnow w)\<rparr>))"
      by (rule raised_run_observed) (rule process_raises[OF assms(1) tail f1])
    then have first: "fst (process_media_generation retries w uid s) = Inl (ReplicateAPIError m)"
      and second: "\<exists>j. find (\<lambda>j. job_id j = uid)
                   (db (snd (process_media_generation retries w uid s))) = Some j
              \<and> status j = FAILED \<and> records_error m j \<and> completed_at j \<noteq> None
              \<and> external_job_id j = external_job_id job"
      by simp_all
    show "fst (process_media_generation retries w uid s) = Inl (ReplicateAPIError m)"
      by (rule first)
    show "\<exists>j. find (\<lambda>j. job_id j = uid)
                   (db (snd (process_media_generation retries w uid s))) = Some j
              \<and> status j = FAILED \<and> records_error m j \<and> completed_at j \<noteq> None
              \<and> external_job_id j = external_job_id job"
      by (rule second)
  }
  {
    assume b: "start_generation w uid job ?s0 = (Inr handle, s1)
          \<and> k < max_attempts
          \<and> (\<forall>i < k. \<exists>result. get_prediction w i handle = Inr result
                 \<and> p_status result \<noteq> ''succeeded'' \<and> p_status result \<noteq> ''failed'')
          \<and> get_prediction w k handle = Inl (ReplicateAPIError m)"
    then have st: "start_generation w uid job ?s0 = (Inr handle, s1)" by simp
    obtain j1 where j1: "find (\<lambda>j. job_id j = uid) (db s1) = Some j1"
      and h1: "external_job_id j1 = Some handle"
      using start_generation_returns[OF f0 _ st] by auto
    let ?s2 = "s1\<lparr>trace := trace s1 @ concat (replicate k [GetPrediction handle, Sleep 10])
                 @ [GetPrediction handle],
          db := update_first uid (\<lambda>j. j\<lparr>status := FAILED,
            error_message := Some (''API error: '' @ m),
            completed_at := Some (utcnow w), updated_at := Some (utcnow w)\<rparr>) (db s1)\<rparr>"
    have rounds: "\<And>i s. i < k \<Longrightarrow>
       poll_once w uid handle (prompt job) i s =
         (Inr None, s\<lparr>trace := trace s @ [GetPrediction handle, Sleep 10]\<rparr>)"
      using b by (auto intro: poll_once_in_progress)
    have poll: "poll_for_completion w uid handle (prompt job) s1 = (Inl (ReplicateAPIError m), ?s2)"
      using b by (intro poll_for_completion_api_error[OF j1 _ rounds]) simp_all
    have tail: "bind (start_generation w uid job)
         (\<lambda>handle. poll_for_completion w uid handle (prompt job)) ?s0 =
       (Inl (ReplicateAPIError m), ?s2)"
      by (simp add: bind_def st poll)
    have f2: "find (\<lambda>j. job_id j = uid) (db ?s2)
       = Some (j1\<lparr>status := FAILED, error_message := Some (''API error: '' @ m),
            completed_at := Some (utcnow w), updated_at := Some (utcnow w)\<rparr>)"
      using j1 by (simp add: find_update_first)
    have "fst (process_media_generation retries w uid s) = Inl (ReplicateAPIError m)
       \<and> (\<exists>j. find (\<lambda>j. job_id j = uid)
                   (db (snd (process_media_generation retries w uid s))) = Some j
              \<and> status j = FAILED \<and> records_error m j \<and> completed_at j \<noteq> None
              \<and> external_job_id j = external_job_id (j1\<lparr>status := FAILED,
                   error_message := Some (''API error: '' @ m),
                   completed_at := Some (utcnow w), updated_at := Some (utcnow w)\<rparr>))"
      by (rule raised_run_observed) (rule process_raises[OF assms(1) tail f2])
    then have first: "fst (process_media_generation retries w uid s) = Inl (ReplicateAPIError m)"
      and second: "\<exists>j. find (\<lambda>j. job_id j = uid)
                   (db (snd (process_media_generation retries w uid s))) = Some j
              \<and> status j = FAILED \<and> records_error m j \<and> completed_at j \<noteq> None
              \<and> external_job_id j = Some handle"
      using h1 by simp_all
    show "fst (process_media_generation retries w uid s) = Inl (ReplicateAPIError m)"
      by (rule first)
    show "\<exists>j. find (\<lambda>j. job_id j = uid)
                   (db (snd (process_media_generation retries w uid s))) = Some j
              \<and> status j = FAILED \<and> records_error m j \<and> completed_at j \<noteq> None
              \<and> external_job_id j = Some handle"
      by (rule second)
  }
qed

theorem api_error_marks_failed_and_reraises_witness:
  "create_prediction timeout_world (model_name demo_job) (input_data_of (prompt demo_job) [])
     = Inl (ReplicateAPIError ''Request timed out'')
   \<and> fst (process_media_generation 0 timeout_world ''j1'' demo_state)
     = Inl (ReplicateAPIError ''Request timed out'')
   \<and> (\<exists>j. find (\<lambda>j. job_id j = ''j1'')
             (db (snd (process_media_generation 0 timeout_world ''j1'' demo_state))) = Some j
        \<and> status j = FAILED \<and> records_error ''Request timed out'' j \<and> completed_at j \<noteq> None
        \<and> external_job_id j = external_job_id demo_job)
   \<and> get_prediction flaky_world 2 ''ext-1'' = Inl (ReplicateAPIError ''Network error: connection reset'')
   \<and> fst (process_media_generation 1 flaky_world ''j1'' resumed_state)
     = Inl (ReplicateAPIError ''Network error: connection reset'')
   \<and> (\<exists>j. find (\<lambda>j. job_id j = ''j1'')
             (db (snd (process_media_generation 1 flaky_world ''j1'' resumed_state))) = Some j
        \<and> status j = FAILED \<and> records_error ''Network error: connection reset'' j
        \<and> completed_at j \<noteq> None \<and> external_job_id j = Some ''ext-1'')
   \<and> external_job_id demo_job = None
   \<and> fst (process_media_generation 0 flaky_world ''j1'' demo_state)
     = Inl (ReplicateAPIError ''Network error: connection reset'')
   \<and> (\<exists>j. find (\<lambda>j. job_id j = ''j1'')
             (db (snd (process_media_generation 0 flaky_world ''j1'' demo_state))) = Some j
        \<and> status j = FAILED \<and> records_error ''Network error: connection reset'' j
        \<and> completed_at j \<noteq> None \<and> external_job_id j = Some ''ext-1'')"
proof -
  have d: "find (\<lambda>j. job_id j = ''j1'') (db demo_state) = Some demo_job"
    by (simp add: demo_defs)
  have r: "find (\<lambda>j. job_id j = ''j1'') (db resumed_state) = Some resumed_job"
    by (simp add: finished_defs demo_defs)
  have c: "create_prediction timeout_world (model_name demo_job) (input_data_of (prompt demo_job) [])
     = Inl (ReplicateAPIError ''Request timed out'')"
    by (simp add: world_defs)
  have g: "get_prediction flaky_world 2 ''ext-1''
     = Inl (ReplicateAPIError ''Network error: connection reset'')"
    by (simp add: world_defs)
  have n: "external_job_id demo_job = None"
    by (simp add: demo_defs)
  have sub: "\<not> truthy (external_job_id demo_job)
          \<and> load_params timeout_world demo_job = return (JObj [])
          \<and> \<not> list_ex (\<lambda>k. k \<in> {''self'', ''prompt'', ''model''}) (map fst [])
          \<and> create_prediction timeout_world (model_name demo_job)
               (input_data_of (prompt demo_job) [])
               = Inl (ReplicateAPIError ''Request timed out'')"
    by (simp add: truthy_def load_params_def demo_defs world_defs)
  have rounds: "2 < max_attempts
          \<and> (\<forall>i < 2. \<exists>result. get_prediction flaky_world i ''ext-1'' = Inr result
                 \<and> p_status result \<noteq> ''succeeded'' \<and> p_status result \<noteq> ''failed'')
          \<and> get_prediction flaky_world 2 ''ext-1''
               = Inl (ReplicateAPIError ''Network error: connection reset'')"
    by (simp add: world_defs max_attempts_def)
  have resume: "start_generation flaky_world ''j1'' resumed_job
         (resumed_state\<lparr>db := update_first ''j1'' (\<lambda>j. j\<lparr>status := PROCESSING,
            started_at := Some (utcnow flaky_world), retry_count := 1,
            updated_at := Some (utcnow flaky_world)\<rparr>) (db resumed_state)\<rparr>)
       = (Inr ''ext-1'',
          resumed_state\<lparr>db := update_first ''j1'' (\<lambda>j. j\<lparr>status := PROCESSING,
            started_at := Some (utcnow flaky_world), retry_count := 1,
            updated_at := Some (utcnow flaky_world)\<rparr>) (db resumed_state)\<rparr>)"
    by (simp add: start_generation_resume return_def finished_defs demo_defs)
  have fresh: "start_generation flaky_world ''j1'' demo_job
         (demo_state\<lparr>db := update_first ''j1'' (\<lambda>j. j\<lparr>status := PROCESSING,
            started_at := Some (utcnow flaky_world), retry_count := 0,
            updated_at := Some (utcnow flaky_world)\<rparr>) (db demo_state)\<rparr>)
       = (Inr ''ext-1'',
          snd (start_generation flaky_world ''j1'' demo_job
         (demo_state\<lparr>db := update_first ''j1'' (\<lambda>j. j\<lparr>status := PROCESSING,
            started_at := Some (utcnow flaky_world), retry_count := 0,
            updated_at := Some (utcnow flaky_world)\<rparr>) (db demo_state)\<rparr>)))"
    by (rule prod_eqI) (simp_all add: run_defs demo_defs world_defs)
  note t1 = api_error_marks_failed_and_reraises[OF d, of timeout_world "[]" "''Request timed out''" 0,
      THEN conjunct1, rule_format, OF sub]
  note t2 = api_error_marks_failed_and_reraises[OF r, where w = flaky_world and handle = "''ext-1''"
      and k = 2 and m = "''Network error: connection reset''" and retries = 1,
      THEN conjunct2, rule_format, OF conjI[OF resume rounds]]
  note t3 = api_error_marks_failed_and_reraises[OF d, where w = flaky_world and handle = "''ext-1''"
      and k = 2 and m = "''Network error: connection reset''" and retries = 0,
      THEN conjunct2, rule_format, OF conjI[OF fresh rounds]]
  from c t1 g t2 n t3 show ?thesis
    by (elim conjE) (intro conjI; assumption)
qed

text \<open>
  Claim C3 as stated fails: after a submission that timed out the job is \<^verbatim>\<open>FAILED\<close>, not
  \<^verbatim>\<open>PROCESSING\<close>.
\<close>

theorem retryable_failure_counterexample:
  "fst (process_media_generation 0 timeout_world ''j1'' demo_state)
     = Inl (ReplicateAPIError ''Request timed out'')
   \<and> map status (db (snd (process_media_generation 0 timeout_world ''j1'' demo_state))) = [FAILED]"
  by (simp add: run_defs demo_defs world_defs)

text \<open>
  Claim C4, as the code has it. Run the task once on an existing job, whatever its status
  and fields. If the job is \<^verbatim>\<open>FAILED\<close> afterwards, its \<^verbatim>\<open>error_message\<close> is non-empty and its
  three result fields are the ones it had before the run; so exactly one of
  "\<^verbatim>\<open>error_message\<close> is non-empty" and "a result field is set" holds then if and only if the
  job had no result field set before. And if the run has changed \<^verbatim>\<open>error_message\<close>, the job
  is \<^verbatim>\<open>FAILED\<close> afterwards. The job before the run is arbitrary, so this holds of each run
  of any sequence of runs.
\<close>

theorem failed_run_records_error_and_keeps_result:
  assumes "find (\<lambda>j. job_id j = uid) (db s) = Some job"
  shows "\<exists>j. find (\<lambda>j. job_id j = uid) (db (snd (process_media_generation retries w uid s))) = Some j
           \<and> (status j = FAILED \<longrightarrow>
                error_nonempty j
              \<and> result_url j = result_url job \<and> file_path j = file_path job
              \<and> file_size j = file_size job
              \<and> (error_nonempty j \<noteq> result_present j) = (\<not> result_present job))
           \<and> (error_message j \<noteq> error_message job \<longrightarrow> status j = FAILED)"
proof -
  have "on_job uid (\<lambda>_. True) s"
    and "on_job uid (\<lambda>j. result_url j = result_url job \<and> file_path j = file_path job
           \<and> file_size j = file_size job) s"
    using assms by (simp_all add: on_job_def)
  then have "on_job uid failed_with_error (snd (process_media_generation retries w uid s))"
    and "on_job uid (\<lambda>j. result_url j = result_url job \<and> file_path j = file_path job
           \<and> file_size j = file_size job) (snd (process_media_generation retries w uid s))"
    using process_ends_failed[of uid s retries w]
      preserves_process_media_generation[OF result_fields_stable, of uid "result_url job"
        "file_path job" "file_size job" retries w]
    by (simp_all add: preserves_def)
  then show ?thesis
    by (auto simp: on_job_def failed_with_error_def result_present_def split: option.splits)
qed

theorem failed_run_records_error_and_keeps_result_witness:
  "(\<exists>j. find (\<lambda>j. job_id j = ''j1'')
          (db (snd (process_media_generation 0 demo_world ''j1'' demo_state))) = Some j
       \<and> status j = FAILED \<and> error_message j \<noteq> error_message demo_job
       \<and> error_nonempty j \<and> \<not> result_present j)
   \<and> (\<exists>j. find (\<lambda>j. job_id j = ''j1'')
          (db (snd (process_media_generation 0 demo_world ''j1'' finished_state))) = Some j
       \<and> status j = FAILED \<and> error_message j \<noteq> error_message finished_job
       \<and> error_nonempty j \<and> file_path j = file_path finished_job)"
proof -
  have d: "find (\<lambda>j. job_id j = ''j1'') (db demo_state) = Some demo_job"
    by (simp add: demo_defs)
  have f: "find (\<lambda>j. job_id j = ''j1'') (db finished_state) = Some finished_job"
    by (simp add: finished_defs demo_defs)
  have n: "\<not> result_present demo_job" "error_message demo_job = None"
    "error_message finished_job = None"
    by (simp_all add: demo_defs finished_defs result_present_def)
  have e1: "\<And>j. find (\<lambda>j. job_id j = ''j1'')
          (db (snd (process_media_generation 0 demo_world ''j1'' demo_state))) = Some j
       \<Longrightarrow> status j = FAILED \<and> error_message j \<noteq> None"
    unfolding demo_first_run by (auto simp: demo_job_def create_job_def)
  have e2: "\<And>j. find (\<lambda>j. job_id j = ''j1'')
          (db (snd (process_media_generation 0 demo_world ''j1'' finished_state))) = Some j
       \<Longrightarrow> status j = FAILED \<and> error_message j \<noteq> None"
    unfolding finished_run by (auto simp: finished_defs demo_job_def create_job_def)
  from failed_run_records_error_and_keeps_result[OF d, of 0 demo_world]
  obtain j1 where j1: "find (\<lambda>j. job_id j = ''j1'')
          (db (snd (process_media_generation 0 demo_world ''j1'' demo_state))) = Some j1"
    and a1: "status j1 = FAILED \<longrightarrow>
                error_nonempty j1
              \<and> result_url j1 = result_url demo_job \<and> file_path j1 = file_path demo_job
              \<and> file_size j1 = file_size demo_job
              \<and> (error_nonempty j1 \<noteq> result_present j1) = (\<not> result_present demo_job)"
    by blast
  from failed_run_records_error_and_keeps_result[OF f, of 0 demo_world]
  obtain j2 where j2: "find (\<lambda>j. job_id j = ''j1'')
          (db (snd (process_media_generation 0 demo_world ''j1'' finished_state))) = Some j2"
    and a2: "status j2 = FAILED \<longrightarrow>
                error_nonempty j2
              \<and> result_url j2 = result_url finished_job \<and> file_path j2 = file_path finished_job
              \<and> file_size j2 = file_size finished_job
              \<and> (error_nonempty j2 \<noteq> result_present j2) = (\<not> result_present finished_job)"
    by blast
  have "status j1 = FAILED \<and> error_message j1 \<noteq> error_message demo_job
       \<and> error_nonempty j1 \<and> \<not> result_present j1"
    using e1[OF j1] a1 n by auto
  moreover have "status j2 = FAILED \<and> error_message j2 \<noteq> error_message finished_job
       \<and> error_nonempty j2 \<and> file_path j2 = file_path finished_job"
    using e2[OF j2] a2 n by auto
  ultimately show ?thesis using j1 j2 by blast
qed

text \<open>
  Claim C4 as stated fails. The job \<open>finished_job\<close> is \<^verbatim>\<open>COMPLETED\<close> with a result and no
  \<^verbatim>\<open>error_message\<close>. The task does not look at the status, so one more run polls the stored
  handle, finds the prediction failed, and leaves the job \<^verbatim>\<open>FAILED\<close> with an
  \<^verbatim>\<open>error_message\<close> and its result both.
\<close>

theorem completed_job_run_again_counterexample:
  "status finished_job = COMPLETED
   \<and> \<not> error_nonempty finished_job \<and> result_present finished_job
   \<and> map status (db (snd (process_media_generation 0 demo_world ''j1'' finished_state))) = [FAILED]
   \<and> map error_nonempty (db (snd (process_media_generation 0 demo_world ''j1'' finished_state)))
       = [True]
   \<and> map result_present (db (snd (process_media_generation 0 demo_world ''j1'' finished_state)))
       = [True]"
  unfolding finished_run
  by (simp add: finished_defs demo_job_def create_job_def error_nonempty_def result_present_def
        truthy_def)

text \<open>
  Claim C10, as the code has it. Let the job's \<^verbatim>\<open>parameters\<close> be a string on which
  \<^verbatim>\<open>json.loads\<close> raises \<^verbatim>\<open>JSONDecodeError\<close>, and its handle be empty. Then the run is, in its
  result, its calls and its final state, the run there would be had the string parsed as
  the empty object: the decoding error is swallowed, nothing of it is recorded, and the run
  fails only where the run with empty parameters fails. The first call of the run is the
  submission with the job's model and with the input that holds the prompt and the
  defaults of \<^verbatim>\<open>generate_image\<close> only.
\<close>

theorem invalid_json_parameters_are_ignored:
  assumes "find (\<lambda>j. job_id j = uid) (db s) = Some job"
    and "parameters job = Some text" and "json_loads w text = Inl (JSONDecodeError msg)"
    and "\<not> truthy (external_job_id job)"
  shows "process_media_generation retries w uid s =
           process_media_generation retries
             (w\<lparr>json_loads := (json_loads w)(text := Inr (JObj []))\<rparr>) uid s
       \<and> (\<exists>calls. trace (snd (process_media_generation retries w uid s)) =
             trace s @
             CreatePrediction (model_name job)
               [(''prompt'', JStr (prompt job)), (''width'', JInt 1024), (''height'', JInt 1024),
                (''num_outputs'', JInt 1), (''num_inference_steps'', JInt 4),
                (''guidance_scale'', JFloat (7 / 2))] # calls)"
proof (rule conjI)
  have lp: "load_params w job = return (JObj [])"
    by (rule load_params_invalid[OF assms(2,3)])
  have same: "load_params (w\<lparr>json_loads := (json_loads w)(text := Inr (JObj []))\<rparr>) job
          = load_params w job"
    unfolding lp using assms(2)
    by (simp add: load_params_def try_except_def return_def fun_eq_iff)
  show "process_media_generation retries w uid s =
           process_media_generation retries
             (w\<lparr>json_loads := (json_loads w)(text := Inr (JObj []))\<rparr>) uid s"
  proof (rule sym, rule process_json)
    fix job'
    assume "find (\<lambda>j. job_id j = uid) (db s) = Some job'"
    then have "job' = job" using assms(1) by simp
    then show "load_params (w\<lparr>json_loads := (json_loads w)(text := Inr (JObj []))\<rparr>) job'
          = load_params w job'"
      using same by simp
  qed
next
  let ?s0 = "s\<lparr>db := update_first uid (\<lambda>j. j\<lparr>status := PROCESSING,
                  started_at := Some (utcnow w), retry_count := retries,
                  updated_at := Some (utcnow w)\<rparr>) (db s)\<rparr>"
  let ?c = "CreatePrediction (model_name job) (input_data_of (prompt job) [])"
  let ?I = "trace_from (trace s @ [?c])"
  have lp: "load_params w job = return (JObj [])"
    by (rule load_params_invalid[OF assms(2,3)])
  have kw: "keyword_arguments (JObj []) = return []"
    by (simp add: keyword_arguments_def)
  have "?I (snd (generate_image w (prompt job) (model_name job) [] ?s0))"
    using generate_image_calls_first[of w "prompt job" "model_name job" "[]" ?s0]
    by (auto simp: trace_from_def)
  then have "?I (snd (submit_generation w uid job ?s0))"
    unfolding submit_generation_def lp kw bind_return
    by (intro try_except_extends_trace bind_extends_trace preserves_bind preserves_trace_update_job
          preserves_trace_save_metadata preserves_return preserves_raise)
  then have "?I (snd (process_media_generation retries w uid s))"
    unfolding process_found[OF assms(1)] start_generation_submits[OF assms(4)]
    by (intro try_except_extends_trace bind_extends_trace preserves_trace_poll_for_completion
          preserves_trace_unexpected_error)
  then show "\<exists>calls. trace (snd (process_media_generation retries w uid s)) =
             trace s @
             CreatePrediction (model_name job)
               [(''prompt'', JStr (prompt job)), (''width'', JInt 1024), (''height'', JInt 1024),
                (''num_outputs'', JInt 1), (''num_inference_steps'', JInt 4),
                (''guidance_scale'', JFloat (7 / 2))] # calls"
    by (simp add: trace_from_def input_data_defaults)
qed

theorem invalid_json_parameters_are_ignored_witness:
  "parameters bad_json_job = Some ''{width: 512''
   \<and> json_loads demo_world ''{width: 512'' = Inl (JSONDecodeError ''Expecting value'')
   \<and> process_media_generation 0 demo_world ''j1'' bad_json_state =
       process_media_generation 0
         (demo_world\<lparr>json_loads := (json_loads demo_world)(''{width: 512'' := Inr (JObj []))\<rparr>)
         ''j1'' bad_json_state
   \<and> (\<exists>calls. trace (snd (process_media_generation 0 demo_world ''j1'' bad_json_state)) =
         trace bad_json_state @
         CreatePrediction (model_name bad_json_job)
           [(''prompt'', JStr (prompt bad_json_job)), (''width'', JInt 1024), (''height'', JInt 1024),
            (''num_outputs'', JInt 1), (''num_inference_steps'', JInt 4),
            (''guidance_scale'', JFloat (7 / 2))] # calls)"
proof -
  have f: "find (\<lambda>j. job_id j = ''j1'') (db bad_json_state) = Some bad_json_job"
    and p: "parameters bad_json_job = Some ''{width: 512''"
    and j: "json_loads demo_world ''{width: 512'' = Inl (JSONDecodeError ''Expecting value'')"
    and h: "\<not> truthy (external_job_id bad_json_job)"
    by (simp_all add: bad_json_state_def bad_json_job_def demo_defs truthy_def)
  from p j invalid_json_parameters_are_ignored[OF f p j h, of 0]
  show ?thesis
    by (elim conjE) (intro conjI; assumption)
qed

text \<open>
  Claim C10 as stated fails. A string that is not valid JSON can make \<^verbatim>\<open>json.loads\<close> raise
  an exception other than \<^verbatim>\<open>JSONDecodeError\<close>, which line 94 does not catch: on a hundred
  thousand opening brackets the decoder raises \<^verbatim>\<open>RecursionError\<close>, the run raises it without
  having submitted anything, and the job is \<^verbatim>\<open>FAILED\<close> with an error recorded. And where the
  decoding error is swallowed, the run can still fail and record an error: with the
  parameters \<^verbatim>\<open>{width: 512\<close> and a prediction that the service reports failed, the job is
  \<^verbatim>\<open>FAILED\<close> with the message of the service.
\<close>

theorem undecodable_parameters_counterexample:
  "parameters deep_json_job = Some (replicate 100000 (CHR ''[''))
   \<and> fst (process_media_generation 0 deep_json_world ''j1'' deep_json_state)
     = Inl (RecursionError
         ''maximum recursion depth exceeded while decoding a JSON array from a unicode string'')
   \<and> trace (snd (process_media_generation 0 deep_json_world ''j1'' deep_json_state)) = []
   \<and> map status (db (snd (process_media_generation 0 deep_json_world ''j1'' deep_json_state)))
       = [FAILED]
   \<and> map error_nonempty
       (db (snd (process_media_generation 0 deep_json_world ''j1'' deep_json_state))) = [True]
   \<and> parameters bad_json_job = Some ''{width: 512''
   \<and> fst (process_media_generation 0 demo_world ''j1'' bad_json_state)
     = Inr (Failed_result (Some ''out of memory''))
   \<and> map status (db (snd (process_media_generation 0 demo_world ''j1'' bad_json_state)))
       = [FAILED]
   \<and> map error_message (db (snd (process_media_generation 0 demo_world ''j1'' bad_json_state)))
       = [Some ''Generation failed: out of memory'']"
proof -
  have p: "parameters deep_json_job = Some (replicate 100000 (CHR ''[''))"
    "parameters bad_json_job = Some ''{width: 512''"
    "trace deep_json_state = []"
    by (simp_all add: deep_json_job_def bad_json_job_def deep_json_state_def)
  show ?thesis
    unfolding deep_json_run
    using p bad_json_run by (simp add: error_nonempty_def truthy_def)
qed


end
